theory Spec2Isabelle
  imports Complex_Main "HOL-Library.Multiset"
begin

section \<open>Portfolio analytics of the Ghostfolio API: numbers, strings and data\<close>

text \<open>
  The analytics code lives twice in the repository: in \<open>AnalyticsService\<close>
  (the dashboard endpoint, weights as fractions) and in \<open>AiService\<close> (the summary
  endpoint, weights as percentages). Both are embedded here, function by function.

  A JavaScript number is modelled as a real, without NaN and infinities. The two
  services are first embedded with exact arithmetic; the section on IEEE double
  arithmetic embeds their numeric functions once more with every operation rounded
  to a double. An absent (null or undefined) field is \<open>None\<close>, and \<open>a ?? b\<close> is
  \<open>nullish a b\<close>.
\<close>

type_synonym number = real

definition nullish :: "'a option \<Rightarrow> 'a \<Rightarrow> 'a" where
  "nullish a b = (case a of None \<Rightarrow> b | Some v \<Rightarrow> v)"

text \<open>\<open>Math.round\<close>: the nearest integer, a tie going up (towards plus infinity).\<close>

definition Math_round :: "number \<Rightarrow> int" where
  "Math_round x = \<lfloor>x + 1 / 2\<rfloor>"

text \<open>
  Decimal digits of a natural number, and the string of an integer as a template
  literal prints it (below \<open>10^21\<close>, where JavaScript prints all digits).
\<close>

fun digits :: "nat \<Rightarrow> string" where
  "digits n =
     (if n < 10 then [''0123456789'' ! n]
      else digits (n div 10) @ [''0123456789'' ! (n mod 10)])"

declare digits.simps [simp del]

definition String_of_nat :: "nat \<Rightarrow> string" where
  "String_of_nat n = digits n"

definition String_of_int :: "int \<Rightarrow> string" where
  "String_of_int i = (if i < 0 then ''-'' @ digits (nat (- i)) else digits (nat i))"

text \<open>
  \<open>Number.prototype.toFixed(f)\<close> as ECMAScript defines it for a finite number below
  \<open>10^21\<close>: a negative number is printed as a minus sign and the digits of its absolute
  value; \<open>n\<close> is the integer for which \<open>n / 10^f\<close> is nearest to \<open>x\<close>, the larger one on a
  tie; its digits are padded with zeros on the left to \<open>f + 1\<close> characters and the point
  is inserted \<open>f\<close> characters from the right.
\<close>

definition toFixed_abs :: "nat \<Rightarrow> number \<Rightarrow> string" where
  "toFixed_abs f x =
     (let n = nat \<lfloor>x * 10 ^ f + 1 / 2\<rfloor>;
          m = digits n
      in if f = 0 then m
         else
           (let m = (if length m \<le> f then replicate (f + 1 - length m) (CHR ''0'') @ m else m);
                k = length m
            in take (k - f) m @ ''.'' @ drop (k - f) m))"

definition toFixed :: "nat \<Rightarrow> number \<Rightarrow> string" where
  "toFixed f x = (if x < 0 then ''-'' @ toFixed_abs f (- x) else toFixed_abs f x)"

text \<open>The holdings the portfolio service supplies; every field may be absent.\<close>

record PortfolioPosition =
  symbol :: "string option"
  name :: "string option"
  assetClass :: "string option"
  assetSubClass :: "string option"
  currency :: "string option"
  allocationInPercentage :: "number option"
  valueInBaseCurrency :: "number option"
  marketPrice :: "number option"

text \<open>
  The result interfaces. \<open>AiSummaryConcentration\<close>, \<open>AiSummaryDiversification\<close> and
  \<open>AiSummaryAssetAllocation\<close> have the fields of \<open>ConcentrationRisk\<close>,
  \<open>DiversificationScore\<close> and \<open>AssetAllocationEntry\<close>, so one record serves both.
  \<open>score\<close> is the result of \<open>Math.round\<close>, an integer.
\<close>

record ConcentrationRisk =
  topHoldingSymbol :: string
  topHoldingName :: string
  topHoldingWeight :: number
  herfindahlIndex :: number
  isHighlyConcentrated :: bool

record DiversificationScore =
  score :: int
  assetClassCount :: nat
  holdingsCount :: nat
  topAssetClass :: string
  topAssetClassWeight :: number

record AssetAllocationEntry =
  assetClass :: string
  weight :: number
  valueInBaseCurrency :: number

text \<open>Reading a property of \<open>undefined\<close> raises a \<open>TypeError\<close>.\<close>

datatype error = TypeError

text \<open>The allocation fraction of a holding, absent read as 0.\<close>

definition allocationOf :: "PortfolioPosition \<Rightarrow> number" where
  "allocationOf p = nullish (allocationInPercentage p) 0"

text \<open>
  \<open>xs.sort((a, b) => k(b) - k(a))\<close>: the sort of ECMAScript is stable, and this
  comparator orders by descending key, so it is the stable insertion sort on the
  negated key.
\<close>

definition sortDescending :: "('a \<Rightarrow> number) \<Rightarrow> 'a list \<Rightarrow> 'a list" where
  "sortDescending k xs = sort_key (\<lambda>x. - k x) xs"

section \<open>AnalyticsService\<close>

subsection \<open>Concentration risk\<close>

text \<open>The sum of squared weights, the \<open>reduce\<close> of both services.\<close>

definition hhiOf :: "PortfolioPosition list \<Rightarrow> number" where
  "hhiOf positions = foldl (\<lambda>sum p. let w = allocationOf p in sum + w * w) 0 positions"

definition computeConcentrationRisk :: "PortfolioPosition list \<Rightarrow> error + ConcentrationRisk" where
  "computeConcentrationRisk positions =
     (if length positions = 0 then
        Inr \<lparr>topHoldingSymbol = '''', topHoldingName = '''', topHoldingWeight = 0,
             herfindahlIndex = 0, isHighlyConcentrated = False\<rparr>
      else
        (case sortDescending allocationOf positions of
           [] \<Rightarrow> Inl TypeError
         | top0 # _ \<Rightarrow>
             (let hhi = hhiOf positions
              in Inr \<lparr>topHoldingSymbol = nullish (PortfolioPosition.symbol top0) '''',
                      topHoldingName =
                        nullish (PortfolioPosition.name top0)
                          (nullish (PortfolioPosition.symbol top0) ''''),
                      topHoldingWeight = allocationOf top0,
                      herfindahlIndex = real_of_int (Math_round (hhi * 10000)) / 10000,
                      isHighlyConcentrated = (hhi > 0.25)\<rparr>)))"

subsection \<open>Asset allocation\<close>

text \<open>
  A JavaScript \<open>Map\<close> keeps its keys in insertion order: an association list, where
  \<open>set\<close> replaces the value of a key in place and appends a new key at the end.
\<close>

type_synonym classMap = "(string \<times> (number \<times> number)) list"

fun Map_get :: "('k \<times> 'v) list \<Rightarrow> 'k \<Rightarrow> 'v option" where
  "Map_get [] k = None"
| "Map_get ((k', v') # m) k = (if k' = k then Some v' else Map_get m k)"

fun Map_set :: "('k \<times> 'v) list \<Rightarrow> 'k \<Rightarrow> 'v \<Rightarrow> ('k \<times> 'v) list" where
  "Map_set [] k v = [(k, v)]"
| "Map_set ((k', v') # m) k v = (if k' = k then (k, v) # m else (k', v') # Map_set m k v)"

text \<open>One pass of the loop over the positions; the pair is \<open>{weight, value}\<close>.\<close>

definition classMapStep :: "classMap \<Rightarrow> PortfolioPosition \<Rightarrow> classMap" where
  "classMapStep classMap p =
     (let cls = nullish (PortfolioPosition.assetClass p) ''UNKNOWN'';
          existing = nullish (Map_get classMap cls) (0, 0);
          existing = (fst existing + nullish (allocationInPercentage p) 0,
                      snd existing + nullish (PortfolioPosition.valueInBaseCurrency p) 0)
      in Map_set classMap cls existing)"

definition buildClassMap :: "PortfolioPosition list \<Rightarrow> classMap" where
  "buildClassMap positions = foldl classMapStep [] positions"

text \<open>The arrow function that turns an entry of the map into an allocation entry.\<close>

definition allocationEntry :: "string \<times> (number \<times> number) \<Rightarrow> AssetAllocationEntry" where
  "allocationEntry e =
     (case e of (cls, (w, v)) \<Rightarrow>
        \<lparr>AssetAllocationEntry.assetClass = cls,
         weight = real_of_int (Math_round (w * 10000)) / 10000,
         valueInBaseCurrency = real_of_int (Math_round (v * 100)) / 100\<rparr>)"

definition computeAssetAllocation :: "PortfolioPosition list \<Rightarrow> AssetAllocationEntry list" where
  "computeAssetAllocation positions =
     sortDescending AssetAllocationEntry.weight
       (map allocationEntry (buildClassMap positions))"

subsection \<open>Diversification score\<close>

definition countedClass :: "AssetAllocationEntry \<Rightarrow> bool" where
  "countedClass a \<longleftrightarrow>
     AssetAllocationEntry.assetClass a \<noteq> ''LIQUIDITY'' \<and>
     AssetAllocationEntry.assetClass a \<noteq> ''UNKNOWN''"

definition holdingsCountOf :: "PortfolioPosition list \<Rightarrow> nat" where
  "holdingsCountOf positions =
     length (filter (\<lambda>p. PortfolioPosition.assetClass p \<noteq> Some ''LIQUIDITY'') positions)"

definition assetClassCountOf :: "AssetAllocationEntry list \<Rightarrow> nat" where
  "assetClassCountOf allocation = length (filter countedClass allocation)"

definition holdingsScore :: "PortfolioPosition list \<Rightarrow> number" where
  "holdingsScore positions = min (real (holdingsCountOf positions) / 20) 1 * 40"

definition classScore :: "AssetAllocationEntry list \<Rightarrow> number" where
  "classScore allocation = min (real (assetClassCountOf allocation) / 5) 1 * 30"

definition classHhi :: "AssetAllocationEntry list \<Rightarrow> number" where
  "classHhi allocation =
     foldl (\<lambda>sum a. sum + weight a * weight a) 0 (filter countedClass allocation)"

definition evennessScore :: "AssetAllocationEntry list \<Rightarrow> number" where
  "evennessScore allocation = (1 - classHhi allocation) * 30"

definition computeDiversification ::
    "PortfolioPosition list \<Rightarrow> AssetAllocationEntry list \<Rightarrow> DiversificationScore" where
  "computeDiversification positions allocation =
     (let topAssetClass =
            (case allocation of [] \<Rightarrow> ''UNKNOWN'' | a # _ \<Rightarrow> AssetAllocationEntry.assetClass a);
          topAssetClassWeight = (case allocation of [] \<Rightarrow> 0 | a # _ \<Rightarrow> weight a);
          score = Math_round
                    (min (holdingsScore positions + classScore allocation
                            + evennessScore allocation) 100)
      in \<lparr>score = score,
          assetClassCount = assetClassCountOf allocation,
          holdingsCount = holdingsCountOf positions,
          topAssetClass = topAssetClass,
          topAssetClassWeight = real_of_int (Math_round (topAssetClassWeight * 10000)) / 10000\<rparr>)"

subsection \<open>Insights\<close>

text \<open>
  \<open>generateInsights\<close> pushes onto one list in four consecutive statements; each
  statement is written as the list it pushes, and the result is their concatenation.
  The dash of the equity message is U+2014, three bytes in UTF-8.
\<close>

definition emDash :: string where
  "emDash = [CHR 0xE2, CHR 0x80, CHR 0x94]"

definition concentrationInsight :: "ConcentrationRisk \<Rightarrow> string list" where
  "concentrationInsight concentration =
     (if isHighlyConcentrated concentration then
        [''High concentration risk: '' @ topHoldingName concentration @ '' ''
           @ ''('' @ topHoldingSymbol concentration @ '') represents ''
           @ toFixed 1 (topHoldingWeight concentration * 100) @ ''% of the portfolio. ''
           @ ''HHI is '' @ toFixed 4 (herfindahlIndex concentration)
           @ '', which exceeds 0.25 threshold.'']
      else if topHoldingWeight concentration > 0.15 then
        [''Moderate concentration: '' @ topHoldingName concentration @ '' ''
           @ ''is the largest position at ''
           @ toFixed 1 (topHoldingWeight concentration * 100) @ ''%.'']
      else [])"

definition diversificationInsight :: "DiversificationScore \<Rightarrow> string list" where
  "diversificationInsight d =
     (if score d \<ge> 70 then
        [''Good diversification (score: '' @ String_of_int (score d) @ ''/100) across ''
           @ String_of_nat (holdingsCount d) @ '' holdings and ''
           @ String_of_nat (assetClassCount d) @ '' asset classes.'']
      else if score d \<ge> 40 then
        [''Moderate diversification (score: '' @ String_of_int (score d) @ ''/100). ''
           @ ''Consider adding more asset classes or holdings.'']
      else
        [''Low diversification (score: '' @ String_of_int (score d) @ ''/100). ''
           @ ''Portfolio is heavily weighted in '' @ topAssetClass d @ '' ''
           @ ''('' @ toFixed 1 (topAssetClassWeight d * 100) @ ''%).''])"

definition equityInsight :: "AssetAllocationEntry list \<Rightarrow> string list" where
  "equityInsight allocation =
     (case find (\<lambda>a. AssetAllocationEntry.assetClass a = ''EQUITY'') allocation of
        None \<Rightarrow> []
      | Some equityAlloc \<Rightarrow>
          (if weight equityAlloc > 0.8 then
             [''Portfolio is '' @ toFixed 1 (weight equityAlloc * 100) @ ''% equities ''
                @ emDash @ '' ''
                @ ''consider adding bonds or fixed income for stability.'']
           else []))"

definition fixedIncomeInsight :: "AssetAllocationEntry list \<Rightarrow> string list" where
  "fixedIncomeInsight allocation =
     (case find (\<lambda>a. AssetAllocationEntry.assetClass a = ''FIXED_INCOME'') allocation of
        None \<Rightarrow> [''No significant fixed income allocation detected.'']
      | Some fixedIncomeAlloc \<Rightarrow>
          (if weight fixedIncomeAlloc < 0.05 then
             [''No significant fixed income allocation detected.'']
           else []))"

definition generateInsights ::
    "ConcentrationRisk \<Rightarrow> DiversificationScore \<Rightarrow> AssetAllocationEntry list \<Rightarrow> string list" where
  "generateInsights concentration d allocation =
     concentrationInsight concentration @ diversificationInsight d
       @ equityInsight allocation @ fixedIncomeInsight allocation"

subsection \<open>The endpoint\<close>

text \<open>
  \<open>getAnalytics\<close> on the positions the portfolio service returned
  (\<open>Object.values(holdings)\<close>); \<open>now\<close> is what \<open>new Date().toISOString()\<close> reads
  from the clock when the response is built.
\<close>

record PortfolioAnalyticsResponse =
  assetAllocation :: "AssetAllocationEntry list"
  concentrationRisk :: ConcentrationRisk
  diversification :: DiversificationScore
  insights :: "string list"
  computedAt :: string

definition getAnalytics :: "string \<Rightarrow> PortfolioPosition list \<Rightarrow> error + PortfolioAnalyticsResponse" where
  "getAnalytics now positions =
     (case computeConcentrationRisk positions of
        Inl e \<Rightarrow> Inl e
      | Inr concentrationRisk' \<Rightarrow>
          (let assetAllocation' = computeAssetAllocation positions;
               d = computeDiversification positions assetAllocation';
               insights' = generateInsights concentrationRisk' d assetAllocation'
           in Inr \<lparr>PortfolioAnalyticsResponse.assetAllocation = assetAllocation',
                   concentrationRisk = concentrationRisk',
                   diversification = d,
                   insights = insights',
                   computedAt = now\<rparr>))"

section \<open>AiService\<close>

text \<open>
  The summary endpoint repeats the computation with weights as percentages. The loop
  that fills the class map and the two counts are the same text as in
  \<open>AnalyticsService\<close>, so \<open>buildClassMap\<close>, \<open>holdingsScore\<close> and \<open>classScore\<close>
  serve both.
\<close>

definition computeConcentration :: "PortfolioPosition list \<Rightarrow> error + ConcentrationRisk" where
  "computeConcentration positions =
     (if length positions = 0 then
        Inr \<lparr>topHoldingSymbol = '''', topHoldingName = '''', topHoldingWeight = 0,
             herfindahlIndex = 0, isHighlyConcentrated = False\<rparr>
      else
        (case sortDescending allocationOf positions of
           [] \<Rightarrow> Inl TypeError
         | top0 # _ \<Rightarrow>
             (let hhi = hhiOf positions
              in Inr \<lparr>topHoldingSymbol = nullish (PortfolioPosition.symbol top0) '''',
                      topHoldingName =
                        nullish (PortfolioPosition.name top0)
                          (nullish (PortfolioPosition.symbol top0) ''''),
                      topHoldingWeight =
                        real_of_int (Math_round (allocationOf top0 * 10000)) / 100,
                      herfindahlIndex = real_of_int (Math_round (hhi * 10000)) / 10000,
                      isHighlyConcentrated = (hhi > 0.25)\<rparr>)))"

definition Ai_allocationEntry :: "string \<times> (number \<times> number) \<Rightarrow> AssetAllocationEntry" where
  "Ai_allocationEntry e =
     (case e of (cls, (w, v)) \<Rightarrow>
        \<lparr>AssetAllocationEntry.assetClass = cls,
         weight = real_of_int (Math_round (w * 10000)) / 100,
         valueInBaseCurrency = real_of_int (Math_round (v * 100)) / 100\<rparr>)"

definition Ai_computeAssetAllocation :: "PortfolioPosition list \<Rightarrow> AssetAllocationEntry list" where
  "Ai_computeAssetAllocation positions =
     sortDescending AssetAllocationEntry.weight
       (map Ai_allocationEntry (buildClassMap positions))"

definition Ai_classHhi :: "AssetAllocationEntry list \<Rightarrow> number" where
  "Ai_classHhi allocation =
     (let classWeightsAsFraction = map (\<lambda>a. weight a / 100) (filter countedClass allocation)
      in foldl (\<lambda>sum w. sum + w * w) 0 classWeightsAsFraction)"

definition Ai_evennessScore :: "AssetAllocationEntry list \<Rightarrow> number" where
  "Ai_evennessScore allocation = (1 - Ai_classHhi allocation) * 30"

definition Ai_computeDiversification ::
    "PortfolioPosition list \<Rightarrow> AssetAllocationEntry list \<Rightarrow> DiversificationScore" where
  "Ai_computeDiversification positions allocation =
     (let topAssetClass =
            (case allocation of [] \<Rightarrow> ''UNKNOWN'' | a # _ \<Rightarrow> AssetAllocationEntry.assetClass a);
          topAssetClassWeight = (case allocation of [] \<Rightarrow> 0 | a # _ \<Rightarrow> weight a);
          score = Math_round
                    (min (holdingsScore positions + classScore allocation
                            + Ai_evennessScore allocation) 100)
      in \<lparr>score = score,
          assetClassCount = assetClassCountOf allocation,
          holdingsCount = holdingsCountOf positions,
          topAssetClass = topAssetClass,
          topAssetClassWeight = topAssetClassWeight\<rparr>)"

definition Ai_concentrationInsight :: "ConcentrationRisk \<Rightarrow> string list" where
  "Ai_concentrationInsight concentration =
     (if isHighlyConcentrated concentration then
        [''High concentration risk: '' @ topHoldingName concentration @ '' ''
           @ ''represents '' @ toFixed 1 (topHoldingWeight concentration)
           @ ''% of the portfolio. ''
           @ ''HHI of '' @ toFixed 4 (herfindahlIndex concentration)
           @ '' exceeds the 0.25 threshold.'']
      else if topHoldingWeight concentration > 15 then
        [''Moderate concentration: '' @ topHoldingName concentration @ '' ''
           @ ''is the largest position at ''
           @ toFixed 1 (topHoldingWeight concentration) @ ''%.'']
      else [])"

definition Ai_diversificationInsight :: "DiversificationScore \<Rightarrow> string list" where
  "Ai_diversificationInsight d =
     (if score d \<ge> 70 then
        [''Good diversification (score: '' @ String_of_int (score d) @ ''/100) across ''
           @ String_of_nat (holdingsCount d) @ '' holdings and ''
           @ String_of_nat (assetClassCount d) @ '' asset classes.'']
      else if score d \<ge> 40 then
        [''Moderate diversification (score: '' @ String_of_int (score d) @ ''/100). ''
           @ ''Consider adding more asset classes or holdings.'']
      else
        [''Low diversification (score: '' @ String_of_int (score d) @ ''/100). ''
           @ ''Portfolio is heavily weighted in '' @ topAssetClass d @ '' ''
           @ ''('' @ toFixed 1 (topAssetClassWeight d) @ ''%).''])"

definition Ai_equityInsight :: "AssetAllocationEntry list \<Rightarrow> string list" where
  "Ai_equityInsight allocation =
     (case find (\<lambda>a. AssetAllocationEntry.assetClass a = ''EQUITY'') allocation of
        None \<Rightarrow> []
      | Some equityAlloc \<Rightarrow>
          (if weight equityAlloc > 80 then
             [''Portfolio is '' @ toFixed 1 (weight equityAlloc) @ ''% equities ''
                @ emDash @ '' ''
                @ ''consider adding bonds or fixed income for stability.'']
           else []))"

definition Ai_fixedIncomeInsight :: "AssetAllocationEntry list \<Rightarrow> string list" where
  "Ai_fixedIncomeInsight allocation =
     (case find (\<lambda>a. AssetAllocationEntry.assetClass a = ''FIXED_INCOME'') allocation of
        None \<Rightarrow> [''No significant fixed income allocation detected.'']
      | Some fixedIncome \<Rightarrow>
          (if weight fixedIncome < 5 then
             [''No significant fixed income allocation detected.'']
           else []))"

definition Ai_generateInsights ::
    "ConcentrationRisk \<Rightarrow> DiversificationScore \<Rightarrow> AssetAllocationEntry list \<Rightarrow> string list" where
  "Ai_generateInsights concentration d allocation =
     Ai_concentrationInsight concentration @ Ai_diversificationInsight d
       @ Ai_equityInsight allocation @ Ai_fixedIncomeInsight allocation"

text \<open>The response of the summary endpoint and the holdings it lists.\<close>

record AiSummaryHolding =
  symbol :: string
  name :: string
  assetClass :: string
  assetSubClass :: string
  currency :: string
  allocationPercentage :: number
  valueInBaseCurrency :: number
  marketPrice :: number

record AiSummaryResponse =
  baseCurrency :: string
  holdings :: "AiSummaryHolding list"
  concentration :: ConcentrationRisk
  diversification :: DiversificationScore
  assetAllocation :: "AssetAllocationEntry list"
  insights :: "string list"
  computedAt :: string

text \<open>The arrow function that lists one holding.\<close>

definition summaryHolding :: "string \<Rightarrow> PortfolioPosition \<Rightarrow> AiSummaryHolding" where
  "summaryHolding userCurrency p =
     \<lparr>AiSummaryHolding.symbol = nullish (PortfolioPosition.symbol p) '''',
      name = nullish (PortfolioPosition.name p) (nullish (PortfolioPosition.symbol p) ''''),
      assetClass = nullish (PortfolioPosition.assetClass p) ''UNKNOWN'',
      assetSubClass = nullish (PortfolioPosition.assetSubClass p) ''UNKNOWN'',
      currency = nullish (PortfolioPosition.currency p) userCurrency,
      allocationPercentage =
        real_of_int (Math_round (nullish (allocationInPercentage p) 0 * 10000)) / 100,
      valueInBaseCurrency =
        real_of_int (Math_round (nullish (PortfolioPosition.valueInBaseCurrency p) 0 * 100)) / 100,
      marketPrice = nullish (PortfolioPosition.marketPrice p) 0\<rparr>"

text \<open>
  \<open>getSummary\<close> sorts the array of positions in place before it lists the holdings,
  so the three computations that follow read the sorted array. \<open>now\<close> is the clock
  reading, as in \<open>getAnalytics\<close>.
\<close>

definition getSummary ::
    "string \<Rightarrow> string \<Rightarrow> PortfolioPosition list \<Rightarrow> error + AiSummaryResponse" where
  "getSummary now userCurrency positions0 =
     (let positions = sortDescending allocationOf positions0;
          holdingsList = map (summaryHolding userCurrency) positions
      in case computeConcentration positions of
           Inl e \<Rightarrow> Inl e
         | Inr concentration' \<Rightarrow>
             (let assetAllocation' = Ai_computeAssetAllocation positions;
                  d = Ai_computeDiversification positions assetAllocation';
                  insights' = Ai_generateInsights concentration' d assetAllocation'
              in Inr \<lparr>baseCurrency = userCurrency,
                      holdings = holdingsList,
                      concentration = concentration',
                      diversification = d,
                      assetAllocation = assetAllocation',
                      insights = insights',
                      computedAt = now\<rparr>))"

section \<open>The same code in IEEE double arithmetic\<close>

text \<open>
  The definitions above compute with exact reals. The code computes with IEEE-754
  doubles: every addition, subtraction, multiplication and division is rounded to the
  nearest number with a 53-bit significand, a tie going to the even significand.
  \<open>toDouble\<close> is that rounding for a real in the normal range of doubles (no
  overflow, no subnormal result, no NaN): \<open>binaryExponent\<close> finds the exponent \<open>e\<close>
  with \<open>2^e \<le> |x| < 2^(e+1)\<close>, in at most 1100 steps, more than the exponents of
  doubles need; the spacing of doubles there is \<open>2^(e-52)\<close>.
\<close>

fun binaryExponent :: "nat \<Rightarrow> real \<Rightarrow> int \<Rightarrow> int" where
  "binaryExponent fuel x e =
     (if fuel = 0 then e
      else if 2 \<le> x then binaryExponent (fuel - 1) (x / 2) (e + 1)
      else if x < 1 then binaryExponent (fuel - 1) (x * 2) (e - 1)
      else e)"

declare binaryExponent.simps [simp del]

definition roundHalfEven :: "real \<Rightarrow> int" where
  "roundHalfEven m =
     (let f = \<lfloor>m\<rfloor>
      in if m - real_of_int f < 1 / 2 then f
         else if 1 / 2 < m - real_of_int f then f + 1
         else if even f then f else f + 1)"

definition toDouble :: "real \<Rightarrow> number" where
  "toDouble x =
     (if x = 0 then 0
      else
        (let a = \<bar>x\<bar>;
             e = binaryExponent 1100 a 0;
             ulp = (if 52 \<le> e then 2 ^ nat (e - 52) else 1 / 2 ^ nat (52 - e));
             n = roundHalfEven (a / ulp)
         in (if x < 0 then - 1 else 1) * (real_of_int n * ulp)))"

text \<open>
  The functions of both services once more, with the rounding \<open>fl\<close> applied where the
  code performs an arithmetic operation. With \<open>fl\<close> the identity they are the exact
  definitions; with \<open>fl = toDouble\<close> they are what the code computes. \<open>Math.round\<close>
  and the comparisons are exact on doubles, and the comparator of the sorts has the
  sign of the exact difference, so the sorts are as before.
\<close>

definition hhiOf_fl :: "(real \<Rightarrow> number) \<Rightarrow> PortfolioPosition list \<Rightarrow> number" where
  "hhiOf_fl fl positions =
     foldl (\<lambda>sum p. let w = allocationOf p in fl (sum + fl (w * w))) 0 positions"

definition computeConcentrationRisk_fl ::
    "(real \<Rightarrow> number) \<Rightarrow> PortfolioPosition list \<Rightarrow> error + ConcentrationRisk" where
  "computeConcentrationRisk_fl fl positions =
     (if length positions = 0 then
        Inr \<lparr>topHoldingSymbol = '''', topHoldingName = '''', topHoldingWeight = 0,
             herfindahlIndex = 0, isHighlyConcentrated = False\<rparr>
      else
        (case sortDescending allocationOf positions of
           [] \<Rightarrow> Inl TypeError
         | top0 # _ \<Rightarrow>
             (let hhi = hhiOf_fl fl positions
              in Inr \<lparr>topHoldingSymbol = nullish (PortfolioPosition.symbol top0) '''',
                      topHoldingName =
                        nullish (PortfolioPosition.name top0)
                          (nullish (PortfolioPosition.symbol top0) ''''),
                      topHoldingWeight = allocationOf top0,
                      herfindahlIndex =
                        fl (real_of_int (Math_round (fl (hhi * 10000))) / 10000),
                      isHighlyConcentrated = (hhi > 0.25)\<rparr>)))"

definition computeConcentration_fl ::
    "(real \<Rightarrow> number) \<Rightarrow> PortfolioPosition list \<Rightarrow> error + ConcentrationRisk" where
  "computeConcentration_fl fl positions =
     (if length positions = 0 then
        Inr \<lparr>topHoldingSymbol = '''', topHoldingName = '''', topHoldingWeight = 0,
             herfindahlIndex = 0, isHighlyConcentrated = False\<rparr>
      else
        (case sortDescending allocationOf positions of
           [] \<Rightarrow> Inl TypeError
         | top0 # _ \<Rightarrow>
             (let hhi = hhiOf_fl fl positions
              in Inr \<lparr>topHoldingSymbol = nullish (PortfolioPosition.symbol top0) '''',
                      topHoldingName =
                        nullish (PortfolioPosition.name top0)
                          (nullish (PortfolioPosition.symbol top0) ''''),
                      topHoldingWeight =
                        fl (real_of_int (Math_round (fl (allocationOf top0 * 10000))) / 100),
                      herfindahlIndex =
                        fl (real_of_int (Math_round (fl (hhi * 10000))) / 10000),
                      isHighlyConcentrated = (hhi > 0.25)\<rparr>)))"

definition classMapStep_fl :: "(real \<Rightarrow> number) \<Rightarrow> classMap \<Rightarrow> PortfolioPosition \<Rightarrow> classMap" where
  "classMapStep_fl fl classMap p =
     (let cls = nullish (PortfolioPosition.assetClass p) ''UNKNOWN'';
          existing = nullish (Map_get classMap cls) (0, 0);
          existing = (fl (fst existing + nullish (allocationInPercentage p) 0),
                      fl (snd existing + nullish (PortfolioPosition.valueInBaseCurrency p) 0))
      in Map_set classMap cls existing)"

definition buildClassMap_fl :: "(real \<Rightarrow> number) \<Rightarrow> PortfolioPosition list \<Rightarrow> classMap" where
  "buildClassMap_fl fl positions = foldl (classMapStep_fl fl) [] positions"

definition allocationEntry_fl ::
    "(real \<Rightarrow> number) \<Rightarrow> string \<times> (number \<times> number) \<Rightarrow> AssetAllocationEntry" where
  "allocationEntry_fl fl e =
     (case e of (cls, (w, v)) \<Rightarrow>
        \<lparr>AssetAllocationEntry.assetClass = cls,
         weight = fl (real_of_int (Math_round (fl (w * 10000))) / 10000),
         valueInBaseCurrency = fl (real_of_int (Math_round (fl (v * 100))) / 100)\<rparr>)"

definition computeAssetAllocation_fl ::
    "(real \<Rightarrow> number) \<Rightarrow> PortfolioPosition list \<Rightarrow> AssetAllocationEntry list" where
  "computeAssetAllocation_fl fl positions =
     sortDescending AssetAllocationEntry.weight
       (map (allocationEntry_fl fl) (buildClassMap_fl fl positions))"

definition Ai_allocationEntry_fl ::
    "(real \<Rightarrow> number) \<Rightarrow> string \<times> (number \<times> number) \<Rightarrow> AssetAllocationEntry" where
  "Ai_allocationEntry_fl fl e =
     (case e of (cls, (w, v)) \<Rightarrow>
        \<lparr>AssetAllocationEntry.assetClass = cls,
         weight = fl (real_of_int (Math_round (fl (w * 10000))) / 100),
         valueInBaseCurrency = fl (real_of_int (Math_round (fl (v * 100))) / 100)\<rparr>)"

definition Ai_computeAssetAllocation_fl ::
    "(real \<Rightarrow> number) \<Rightarrow> PortfolioPosition list \<Rightarrow> AssetAllocationEntry list" where
  "Ai_computeAssetAllocation_fl fl positions =
     sortDescending AssetAllocationEntry.weight
       (map (Ai_allocationEntry_fl fl) (buildClassMap_fl fl positions))"

definition holdingsScore_fl :: "(real \<Rightarrow> number) \<Rightarrow> PortfolioPosition list \<Rightarrow> number" where
  "holdingsScore_fl fl positions = fl (min (fl (real (holdingsCountOf positions) / 20)) 1 * 40)"

definition classScore_fl :: "(real \<Rightarrow> number) \<Rightarrow> AssetAllocationEntry list \<Rightarrow> number" where
  "classScore_fl fl allocation = fl (min (fl (real (assetClassCountOf allocation) / 5)) 1 * 30)"

definition classHhi_fl :: "(real \<Rightarrow> number) \<Rightarrow> AssetAllocationEntry list \<Rightarrow> number" where
  "classHhi_fl fl allocation =
     foldl (\<lambda>sum a. fl (sum + fl (weight a * weight a))) 0 (filter countedClass allocation)"

definition Ai_classHhi_fl :: "(real \<Rightarrow> number) \<Rightarrow> AssetAllocationEntry list \<Rightarrow> number" where
  "Ai_classHhi_fl fl allocation =
     (let classWeightsAsFraction =
            map (\<lambda>a. fl (weight a / 100)) (filter countedClass allocation)
      in foldl (\<lambda>sum w. fl (sum + fl (w * w))) 0 classWeightsAsFraction)"

definition score_fl ::
    "(real \<Rightarrow> number) \<Rightarrow> PortfolioPosition list \<Rightarrow> AssetAllocationEntry list \<Rightarrow> int" where
  "score_fl fl positions allocation =
     (let holdingsScore = holdingsScore_fl fl positions;
          classScore = classScore_fl fl allocation;
          evennessScore = fl (fl (1 - classHhi_fl fl allocation) * 30)
      in Math_round (min (fl (fl (holdingsScore + classScore) + evennessScore)) 100))"

definition Ai_score_fl ::
    "(real \<Rightarrow> number) \<Rightarrow> PortfolioPosition list \<Rightarrow> AssetAllocationEntry list \<Rightarrow> int" where
  "Ai_score_fl fl positions allocation =
     (let holdingsScore = holdingsScore_fl fl positions;
          classScore = classScore_fl fl allocation;
          evennessScore = fl (fl (1 - Ai_classHhi_fl fl allocation) * 30)
      in Math_round (min (fl (fl (holdingsScore + classScore) + evennessScore)) 100))"

section \<open>Notions used in the statements\<close>

text \<open>
  The key under which the loop of \<open>computeAssetAllocation\<close> files a holding, and
  the value it adds to the total of that key.
\<close>

definition classOf :: "PortfolioPosition \<Rightarrow> string" where
  "classOf p = nullish (PortfolioPosition.assetClass p) ''UNKNOWN''"

definition valueOf :: "PortfolioPosition \<Rightarrow> number" where
  "valueOf p = nullish (PortfolioPosition.valueInBaseCurrency p) 0"

text \<open>
  A holding with every absent field replaced by the value the code reads for it:
  0 for a number, the empty string for the symbol, the symbol for the name,
  \<open>UNKNOWN\<close> for the asset class and sub class, the user's currency for the currency.
\<close>

definition withDefaults :: "string \<Rightarrow> PortfolioPosition \<Rightarrow> PortfolioPosition" where
  "withDefaults userCurrency p =
     \<lparr>PortfolioPosition.symbol = Some (nullish (PortfolioPosition.symbol p) ''''),
      name = Some (nullish (PortfolioPosition.name p)
                     (nullish (PortfolioPosition.symbol p) '''')),
      assetClass = Some (nullish (PortfolioPosition.assetClass p) ''UNKNOWN''),
      assetSubClass = Some (nullish (PortfolioPosition.assetSubClass p) ''UNKNOWN''),
      currency = Some (nullish (PortfolioPosition.currency p) userCurrency),
      allocationInPercentage = Some (nullish (allocationInPercentage p) 0),
      valueInBaseCurrency = Some (nullish (PortfolioPosition.valueInBaseCurrency p) 0),
      marketPrice = Some (nullish (PortfolioPosition.marketPrice p) 0)\<rparr>"

section \<open>Inputs of the scenarios\<close>

text \<open>A holding with a symbol, an asset class and an allocation, every other field absent.\<close>

definition holding :: "string \<Rightarrow> string \<Rightarrow> number \<Rightarrow> PortfolioPosition" where
  "holding s cls w =
     \<lparr>PortfolioPosition.symbol = Some s, name = None, assetClass = Some cls,
      assetSubClass = None, currency = None, allocationInPercentage = Some w,
      valueInBaseCurrency = None, marketPrice = None\<rparr>"

definition singleFullWeight :: "PortfolioPosition list" where
  "singleFullWeight = [holding ''AAPL'' ''EQUITY'' 1]"

definition twoOverweightEquities :: "PortfolioPosition list" where
  "twoOverweightEquities = [holding ''A'' ''EQUITY'' 0.6, holding ''B'' ''EQUITY'' 0.6]"

definition borderlineConcentration :: "PortfolioPosition list" where
  "borderlineConcentration = [holding ''A'' ''EQUITY'' 0.5, holding ''B'' ''EQUITY'' 0.005]"

definition twoFullWeights :: "PortfolioPosition list" where
  "twoFullWeights = [holding ''A'' ''EQUITY'' 1, holding ''B'' ''EQUITY'' 1]"

definition threeClasses :: "PortfolioPosition list" where
  "threeClasses =
     [holding ''A'' ''EQUITY'' 0.6, holding ''B'' ''FIXED_INCOME'' 0.3,
      holding ''C'' ''LIQUIDITY'' 0.1]"


definition noFields :: PortfolioPosition where
  "noFields =
     \<lparr>PortfolioPosition.symbol = None, name = None, assetClass = None,
      assetSubClass = None, currency = None, allocationInPercentage = None,
      valueInBaseCurrency = None, marketPrice = None\<rparr>"

text \<open>
  Holdings whose allocations are doubles, as the code receives them: the doubles
  nearest to 0.15, 0.15, 0.15, 0.40, 0.15, in one asset class and in this order; and
  the doubles nearest to 0.592, 0.0752, 0.3064 and 0.0264 in four asset classes.
\<close>

definition fiveHoldings :: "PortfolioPosition list" where
  "fiveHoldings =
     [holding ''A'' ''EQUITY'' (toDouble 0.15), holding ''B'' ''EQUITY'' (toDouble 0.15),
      holding ''C'' ''EQUITY'' (toDouble 0.15), holding ''D'' ''EQUITY'' (toDouble 0.40),
      holding ''E'' ''EQUITY'' (toDouble 0.15)]"

definition fourHoldings :: "PortfolioPosition list" where
  "fourHoldings =
     [holding ''A'' ''EQUITY'' (toDouble 0.592),
      holding ''B'' ''FIXED_INCOME'' (toDouble 0.0752),
      holding ''C'' ''COMMODITY'' (toDouble 0.3064),
      holding ''D'' ''LIQUIDITY'' (toDouble 0.0264)]"

section \<open>Evaluation\<close>

lemmas analytics_defs =
  getAnalytics_def computeConcentrationRisk_def computeAssetAllocation_def allocationEntry_def
  computeDiversification_def generateInsights_def concentrationInsight_def
  diversificationInsight_def equityInsight_def fixedIncomeInsight_def

lemmas ai_defs =
  getSummary_def computeConcentration_def Ai_computeAssetAllocation_def Ai_allocationEntry_def
  Ai_computeDiversification_def Ai_generateInsights_def Ai_concentrationInsight_def
  Ai_diversificationInsight_def Ai_equityInsight_def Ai_fixedIncomeInsight_def
  Ai_classHhi_def Ai_evennessScore_def summaryHolding_def

lemmas common_defs =
  buildClassMap_def classMapStep_def holdingsScore_def classScore_def classHhi_def
  evennessScore_def holdingsCountOf_def assetClassCountOf_def countedClass_def
  sortDescending_def hhiOf_def allocationOf_def nullish_def Math_round_def
  toFixed_def toFixed_abs_def String_of_int_def String_of_nat_def digits.simps
  emDash_def holding_def Let_def

lemmas fl_defs =
  hhiOf_fl_def computeConcentrationRisk_fl_def computeConcentration_fl_def
  classMapStep_fl_def buildClassMap_fl_def allocationEntry_fl_def
  computeAssetAllocation_fl_def Ai_allocationEntry_fl_def Ai_computeAssetAllocation_fl_def
  holdingsScore_fl_def classScore_fl_def classHhi_fl_def Ai_classHhi_fl_def score_fl_def
  Ai_score_fl_def

section \<open>Auxiliary facts\<close>

subsection \<open>Sums and rounding\<close>

lemma foldl_add_sum_list:
  "foldl (\<lambda>s x. s + f x) a xs = a + sum_list (map f xs)" for a :: real
  by (induction xs arbitrary: a) simp_all

lemma hhiOf_sum_list: "hhiOf ps = (\<Sum>p\<leftarrow>ps. allocationOf p * allocationOf p)"
  by (simp add: hhiOf_def Let_def foldl_add_sum_list)

lemma classHhi_sum_list:
  "classHhi allocation = (\<Sum>a\<leftarrow>filter countedClass allocation. weight a * weight a)"
  by (simp add: classHhi_def foldl_add_sum_list)

lemma Ai_classHhi_sum_list:
  "Ai_classHhi allocation =
     (\<Sum>a\<leftarrow>filter countedClass allocation. (weight a / 100) * (weight a / 100))"
  by (simp add: Ai_classHhi_def Let_def foldl_add_sum_list comp_def)

lemma Math_round_upper: "real_of_int (Math_round x) \<le> x + 1 / 2"
  by (simp add: Math_round_def)

lemma Math_round_lower: "x - 1 / 2 < real_of_int (Math_round x)"
  unfolding Math_round_def by linarith

lemma Math_round_mono: "x \<le> y \<Longrightarrow> Math_round x \<le> Math_round y"
  by (simp add: Math_round_def floor_mono)

lemma Math_round_of_int: "Math_round (real_of_int n) = n"
  unfolding Math_round_def by linarith

lemma Math_round_nonneg: "0 \<le> x \<Longrightarrow> 0 \<le> Math_round x"
  unfolding Math_round_def by simp

lemma round4_error: "\<bar>real_of_int (Math_round (x * 10000)) / 10000 - x\<bar> \<le> 5 / 100000"
proof -
  have "real_of_int (Math_round (x * 10000)) \<le> x * 10000 + 1 / 2"
    by (rule Math_round_upper)
  moreover have "x * 10000 - 1 / 2 < real_of_int (Math_round (x * 10000))"
    by (rule Math_round_lower)
  ultimately show ?thesis by linarith
qed

lemma sortDescending_length: "length (sortDescending k xs) = length xs"
  by (simp add: sortDescending_def)

lemma sortDescending_nonempty: "xs \<noteq> [] \<Longrightarrow> \<exists>y ys. sortDescending k xs = y # ys"
  using sortDescending_length [of k xs] by (cases "sortDescending k xs") auto

lemma computeConcentrationRisk_total: "\<exists>c. computeConcentrationRisk ps = Inr c"
proof (cases ps)
  case Nil
  then show ?thesis by (simp add: computeConcentrationRisk_def)
next
  case (Cons p qs)
  then obtain y ys where "sortDescending allocationOf ps = y # ys"
    using sortDescending_nonempty [of ps allocationOf] by auto
  with Cons show ?thesis by (simp add: computeConcentrationRisk_def Let_def)
qed

lemma computeConcentration_total: "\<exists>c. computeConcentration ps = Inr c"
proof (cases ps)
  case Nil
  then show ?thesis by (simp add: computeConcentration_def)
next
  case (Cons p qs)
  then obtain y ys where "sortDescending allocationOf ps = y # ys"
    using sortDescending_nonempty [of ps allocationOf] by auto
  with Cons show ?thesis by (simp add: computeConcentration_def Let_def)
qed

subsection \<open>The four insight rules\<close>

lemma concentrationInsight_length: "length (concentrationInsight c) \<le> 1"
  by (simp add: concentrationInsight_def)

lemma diversificationInsight_length: "length (diversificationInsight d) = 1"
  by (simp add: diversificationInsight_def)

lemma equityInsight_length: "length (equityInsight a) \<le> 1"
  by (simp add: equityInsight_def split: option.split)

lemma fixedIncomeInsight_length: "length (fixedIncomeInsight a) \<le> 1"
  by (simp add: fixedIncomeInsight_def split: option.split)

lemma Ai_concentrationInsight_length: "length (Ai_concentrationInsight c) \<le> 1"
  by (simp add: Ai_concentrationInsight_def)

lemma Ai_diversificationInsight_length: "length (Ai_diversificationInsight d) = 1"
  by (simp add: Ai_diversificationInsight_def)

lemma Ai_equityInsight_length: "length (Ai_equityInsight a) \<le> 1"
  by (simp add: Ai_equityInsight_def split: option.split)

lemma Ai_fixedIncomeInsight_length: "length (Ai_fixedIncomeInsight a) \<le> 1"
  by (simp add: Ai_fixedIncomeInsight_def split: option.split)

subsection \<open>The concentration result\<close>

lemma computeConcentrationRisk_index:
  "\<exists>c. computeConcentrationRisk ps = Inr c
       \<and> herfindahlIndex c = real_of_int (Math_round (hhiOf ps * 10000)) / 10000
       \<and> isHighlyConcentrated c = (hhiOf ps > 0.25)"
proof (cases ps)
  case Nil
  then show ?thesis by (simp add: computeConcentrationRisk_def hhiOf_def Math_round_def)
next
  case (Cons p qs)
  then obtain y ys where "sortDescending allocationOf ps = y # ys"
    using sortDescending_nonempty [of ps allocationOf] by auto
  with Cons show ?thesis by (simp add: computeConcentrationRisk_def Let_def)
qed

lemma computeConcentration_index:
  "\<exists>c. computeConcentration ps = Inr c
       \<and> herfindahlIndex c = real_of_int (Math_round (hhiOf ps * 10000)) / 10000
       \<and> isHighlyConcentrated c = (hhiOf ps > 0.25)"
proof (cases ps)
  case Nil
  then show ?thesis by (simp add: computeConcentration_def hhiOf_def Math_round_def)
next
  case (Cons p qs)
  then obtain y ys where "sortDescending allocationOf ps = y # ys"
    using sortDescending_nonempty [of ps allocationOf] by auto
  with Cons show ?thesis by (simp add: computeConcentration_def Let_def)
qed

lemma round4_above_quarter:
  assumes "real_of_int (Math_round (h * 10000)) / 10000 > 1 / 4"
  shows "h > 1 / 4"
proof (rule ccontr)
  assume "\<not> h > 1 / 4"
  then have "h * 10000 \<le> real_of_int 2500" by simp
  then have "Math_round (h * 10000) \<le> Math_round (real_of_int 2500)"
    by (rule Math_round_mono)
  then have "Math_round (h * 10000) \<le> 2500" by (simp only: Math_round_of_int)
  then have "real_of_int (Math_round (h * 10000)) \<le> 2500" by simp
  with assms show False by simp
qed

lemma round4_of_above_quarter:
  assumes "h > 1 / 4"
  shows "real_of_int (Math_round (h * 10000)) / 10000 \<ge> 1 / 4"
proof -
  from assms have "real_of_int 2500 \<le> h * 10000" by simp
  then have "Math_round (real_of_int 2500) \<le> Math_round (h * 10000)"
    by (rule Math_round_mono)
  then have "2500 \<le> Math_round (h * 10000)" by (simp only: Math_round_of_int)
  then have "2500 \<le> real_of_int (Math_round (h * 10000))" by simp
  then show ?thesis by simp
qed

lemma flag_index_relation:
  assumes "hi = real_of_int (Math_round (h * 10000)) / 10000" and "flag = (h > 0.25)"
  shows "(hi > 0.25 \<longrightarrow> flag) \<and> (flag \<longrightarrow> hi \<ge> 0.25)"
proof -
  have q: "(0.25::real) = 1 / 4" by simp
  show ?thesis
    unfolding assms q
    using round4_above_quarter [of h] round4_of_above_quarter [of h] by blast
qed

subsection \<open>Bounds of the Herfindahl index\<close>

lemma sum_list_map_nonneg:
  fixes f :: "'a \<Rightarrow> real"
  shows "\<forall>x\<in>set xs. 0 \<le> f x \<Longrightarrow> 0 \<le> (\<Sum>x\<leftarrow>xs. f x)"
  by (induction xs) auto

lemma sum_list_nonneg_squares:
  fixes f :: "'a \<Rightarrow> real"
  assumes "\<forall>x\<in>set xs. 0 \<le> f x"
  shows "(\<Sum>x\<leftarrow>xs. f x * f x) \<le> (\<Sum>x\<leftarrow>xs. f x) * (\<Sum>x\<leftarrow>xs. f x)"
  using assms
proof (induction xs)
  case Nil
  then show ?case by simp
next
  case (Cons x xs)
  let ?S = "\<Sum>y\<leftarrow>xs. f y"
  have nonneg: "0 \<le> f x" "0 \<le> ?S"
    using Cons.prems by (simp_all add: sum_list_map_nonneg)
  have "(\<Sum>y\<leftarrow>xs. f y * f y) \<le> ?S * ?S"
    using Cons by simp
  moreover have "(f x + ?S) * (f x + ?S) = f x * f x + 2 * (f x * ?S) + ?S * ?S"
    by (simp add: algebra_simps)
  moreover have "0 \<le> f x * ?S"
    using nonneg by simp
  ultimately show ?case by simp
qed

lemma hhiOf_nonneg: "0 \<le> hhiOf ps"
  unfolding hhiOf_sum_list by (rule sum_list_map_nonneg) simp

lemma hhiOf_le_one:
  assumes "\<forall>p\<in>set ps. 0 \<le> allocationOf p" and "(\<Sum>p\<leftarrow>ps. allocationOf p) \<le> 1"
  shows "hhiOf ps \<le> 1"
proof -
  let ?S = "\<Sum>p\<leftarrow>ps. allocationOf p"
  have "0 \<le> ?S" using assms(1) by (rule sum_list_map_nonneg)
  then have "?S * ?S \<le> 1 * 1" using assms(2) by (intro mult_mono) simp_all
  moreover have "hhiOf ps \<le> ?S * ?S"
    unfolding hhiOf_sum_list using assms(1) by (rule sum_list_nonneg_squares)
  ultimately show ?thesis by simp
qed

lemma round4_unit_interval:
  assumes "0 \<le> h" and "h \<le> 1"
  shows "0 \<le> real_of_int (Math_round (h * 10000)) / 10000
         \<and> real_of_int (Math_round (h * 10000)) / 10000 \<le> 1"
proof -
  have "0 \<le> Math_round (h * 10000)"
    using assms(1) by (intro Math_round_nonneg) simp
  moreover have "Math_round (h * 10000) \<le> Math_round (real_of_int 10000)"
    using assms(2) by (intro Math_round_mono) simp
  then have "Math_round (h * 10000) \<le> 10000" by (simp only: Math_round_of_int)
  then have "real_of_int (Math_round (h * 10000)) \<le> 10000" by simp
  ultimately show ?thesis by simp
qed

text \<open>
  The index stays in [0, 1] when the fractions, each in [0, 1], sum to at most 1.
\<close>

lemma herfindahlIndex_range_when_fractions_sum_to_at_most_one:
  assumes "\<forall>p\<in>set ps. 0 \<le> allocationOf p \<and> allocationOf p \<le> 1"
    and "(\<Sum>p\<leftarrow>ps. allocationOf p) \<le> 1"
  shows "\<exists>c. computeConcentrationRisk ps = Inr c
             \<and> 0 \<le> herfindahlIndex c \<and> herfindahlIndex c \<le> 1"
proof -
  obtain c where c: "computeConcentrationRisk ps = Inr c"
      "herfindahlIndex c = real_of_int (Math_round (hhiOf ps * 10000)) / 10000"
    using computeConcentrationRisk_index [of ps] by blast
  have "hhiOf ps \<le> 1" using assms by (intro hhiOf_le_one) auto
  with hhiOf_nonneg [of ps] have "0 \<le> herfindahlIndex c \<and> herfindahlIndex c \<le> 1"
    unfolding c(2) by (rule round4_unit_interval)
  with c(1) show ?thesis by blast
qed

subsection \<open>The response of \<open>getAnalytics\<close>\<close>

lemma getAnalytics_result:
  "\<exists>c. computeConcentrationRisk ps = Inr c
       \<and> getAnalytics now ps =
           Inr \<lparr>PortfolioAnalyticsResponse.assetAllocation = computeAssetAllocation ps,
                concentrationRisk = c,
                diversification = computeDiversification ps (computeAssetAllocation ps),
                insights =
                  generateInsights c (computeDiversification ps (computeAssetAllocation ps))
                    (computeAssetAllocation ps),
                computedAt = now\<rparr>"
proof -
  obtain c where "computeConcentrationRisk ps = Inr c"
    using computeConcentrationRisk_total [of ps] by blast
  then show ?thesis by (simp add: getAnalytics_def Let_def)
qed

subsection \<open>The weights in the class map\<close>

lemma Map_set_weight_sum:
  fixes m :: classMap
  shows "(\<Sum>e\<leftarrow>Map_set m cls (a, b). fst (snd e)) =
           (\<Sum>e\<leftarrow>m. fst (snd e)) - fst (nullish (Map_get m cls) (0, 0)) + a"
  by (induction m) (auto simp: nullish_def)

lemma classMapStep_weight_sum:
  "(\<Sum>e\<leftarrow>classMapStep m p. fst (snd e)) = (\<Sum>e\<leftarrow>m. fst (snd e)) + allocationOf p"
  by (simp add: classMapStep_def Let_def Map_set_weight_sum allocationOf_def)

lemma foldl_classMapStep_weight_sum:
  "(\<Sum>e\<leftarrow>foldl classMapStep m ps. fst (snd e)) =
     (\<Sum>e\<leftarrow>m. fst (snd e)) + (\<Sum>p\<leftarrow>ps. allocationOf p)"
  by (induction ps arbitrary: m) (simp_all add: classMapStep_weight_sum)

lemma buildClassMap_weight_sum:
  "(\<Sum>e\<leftarrow>buildClassMap ps. fst (snd e)) = (\<Sum>p\<leftarrow>ps. allocationOf p)"
  by (simp add: buildClassMap_def foldl_classMapStep_weight_sum)

lemma sum_list_sort_key:
  fixes f :: "'a \<Rightarrow> real"
  shows "(\<Sum>x\<leftarrow>sort_key k xs. f x) = (\<Sum>x\<leftarrow>xs. f x)"
proof -
  have "(\<Sum>x\<leftarrow>sort_key k xs. f x) = sum_mset (mset (map f (sort_key k xs)))"
    by (simp only: sum_mset_sum_list)
  also have "\<dots> = sum_mset (mset (map f xs))"
    by simp
  also have "\<dots> = (\<Sum>x\<leftarrow>xs. f x)"
    by (simp only: sum_mset_sum_list)
  finally show ?thesis .
qed




subsection \<open>Holdings with their defaults filled in\<close>

lemma insort_key_map:
  "insort_key k (g x) (map g ys) = map g (insort_key (\<lambda>y. k (g y)) x ys)"
  by (induction ys) simp_all

lemma sort_key_map: "sort_key k (map g xs) = map g (sort_key (\<lambda>y. k (g y)) xs)"
  by (induction xs) (simp_all add: insort_key_map)

lemma allocationOf_withDefaults [simp]: "allocationOf (withDefaults u p) = allocationOf p"
  by (simp add: allocationOf_def withDefaults_def nullish_def)

lemma sortDescending_withDefaults:
  "sortDescending allocationOf (map (withDefaults u) ps) =
     map (withDefaults u) (sortDescending allocationOf ps)"
  by (simp add: sortDescending_def sort_key_map)

lemma hhiOf_withDefaults [simp]: "hhiOf (map (withDefaults u) ps) = hhiOf ps"
  by (simp add: hhiOf_sum_list comp_def)

lemma topFields_withDefaults [simp]:
  "nullish (PortfolioPosition.symbol (withDefaults u p)) '''' =
     nullish (PortfolioPosition.symbol p) ''''"
  "nullish (PortfolioPosition.name (withDefaults u p)) d =
     nullish (PortfolioPosition.name p) (nullish (PortfolioPosition.symbol p) '''')"
  by (simp_all add: withDefaults_def nullish_def)

lemma computeConcentrationRisk_Cons:
  assumes "sortDescending allocationOf ps = y # ys"
  shows "computeConcentrationRisk ps =
           Inr \<lparr>topHoldingSymbol = nullish (PortfolioPosition.symbol y) '''',
                topHoldingName =
                  nullish (PortfolioPosition.name y) (nullish (PortfolioPosition.symbol y) ''''),
                topHoldingWeight = allocationOf y,
                herfindahlIndex = real_of_int (Math_round (hhiOf ps * 10000)) / 10000,
                isHighlyConcentrated = (hhiOf ps > 0.25)\<rparr>"
proof -
  have "length ps \<noteq> 0"
    using assms sortDescending_length [of allocationOf ps] by auto
  then show ?thesis
    using assms by (simp add: computeConcentrationRisk_def Let_def)
qed

lemma computeConcentration_Cons:
  assumes "sortDescending allocationOf ps = y # ys"
  shows "computeConcentration ps =
           Inr \<lparr>topHoldingSymbol = nullish (PortfolioPosition.symbol y) '''',
                topHoldingName =
                  nullish (PortfolioPosition.name y) (nullish (PortfolioPosition.symbol y) ''''),
                topHoldingWeight = real_of_int (Math_round (allocationOf y * 10000)) / 100,
                herfindahlIndex = real_of_int (Math_round (hhiOf ps * 10000)) / 10000,
                isHighlyConcentrated = (hhiOf ps > 0.25)\<rparr>"
proof -
  have "length ps \<noteq> 0"
    using assms sortDescending_length [of allocationOf ps] by auto
  then show ?thesis
    using assms by (simp add: computeConcentration_def Let_def)
qed

lemma computeConcentrationRisk_withDefaults:
  "computeConcentrationRisk (map (withDefaults u) ps) = computeConcentrationRisk ps"
proof (cases "sortDescending allocationOf ps")
  case Nil
  then have "ps = []" using sortDescending_length [of allocationOf ps] by simp
  then show ?thesis by simp
next
  case (Cons y ys)
  then have "sortDescending allocationOf (map (withDefaults u) ps) =
               withDefaults u y # map (withDefaults u) ys"
    by (simp add: sortDescending_withDefaults)
  then have "computeConcentrationRisk (map (withDefaults u) ps) =
           Inr \<lparr>topHoldingSymbol = nullish (PortfolioPosition.symbol y) '''',
                topHoldingName =
                  nullish (PortfolioPosition.name y) (nullish (PortfolioPosition.symbol y) ''''),
                topHoldingWeight = allocationOf y,
                herfindahlIndex = real_of_int (Math_round (hhiOf ps * 10000)) / 10000,
                isHighlyConcentrated = (hhiOf ps > 0.25)\<rparr>"
    by (simp add: computeConcentrationRisk_Cons)
  with Cons show ?thesis by (simp add: computeConcentrationRisk_Cons)
qed

lemma computeConcentration_withDefaults:
  "computeConcentration (map (withDefaults u) ps) = computeConcentration ps"
proof (cases "sortDescending allocationOf ps")
  case Nil
  then have "ps = []" using sortDescending_length [of allocationOf ps] by simp
  then show ?thesis by simp
next
  case (Cons y ys)
  then have "sortDescending allocationOf (map (withDefaults u) ps) =
               withDefaults u y # map (withDefaults u) ys"
    by (simp add: sortDescending_withDefaults)
  then have "computeConcentration (map (withDefaults u) ps) =
           Inr \<lparr>topHoldingSymbol = nullish (PortfolioPosition.symbol y) '''',
                topHoldingName =
                  nullish (PortfolioPosition.name y) (nullish (PortfolioPosition.symbol y) ''''),
                topHoldingWeight = real_of_int (Math_round (allocationOf y * 10000)) / 100,
                herfindahlIndex = real_of_int (Math_round (hhiOf ps * 10000)) / 10000,
                isHighlyConcentrated = (hhiOf ps > 0.25)\<rparr>"
    by (simp add: computeConcentration_Cons)
  with Cons show ?thesis by (simp add: computeConcentration_Cons)
qed

lemma classMapStep_withDefaults [simp]:
  "classMapStep m (withDefaults u p) = classMapStep m p"
  by (simp add: classMapStep_def withDefaults_def nullish_def)

lemma buildClassMap_withDefaults [simp]:
  "buildClassMap (map (withDefaults u) ps) = buildClassMap ps"
  by (simp add: buildClassMap_def foldl_map)

lemma holdingsCountOf_withDefaults [simp]:
  "holdingsCountOf (map (withDefaults u) ps) = holdingsCountOf ps"
proof -
  have "(PortfolioPosition.assetClass (withDefaults u p) \<noteq> Some ''LIQUIDITY'')
          = (PortfolioPosition.assetClass p \<noteq> Some ''LIQUIDITY'')" for p
    by (cases "PortfolioPosition.assetClass p") (simp_all add: withDefaults_def nullish_def)
  then show ?thesis
    by (simp add: holdingsCountOf_def filter_map comp_def)
qed

lemma holdingsScore_withDefaults [simp]:
  "holdingsScore (map (withDefaults u) ps) = holdingsScore ps"
  by (simp add: holdingsScore_def)

lemma summaryHolding_withDefaults [simp]:
  "summaryHolding u (withDefaults u p) = summaryHolding u p"
  by (simp add: summaryHolding_def withDefaults_def nullish_def)

lemma computeAssetAllocation_withDefaults [simp]:
  "computeAssetAllocation (map (withDefaults u) ps) = computeAssetAllocation ps"
  by (simp add: computeAssetAllocation_def)

lemma Ai_computeAssetAllocation_withDefaults [simp]:
  "Ai_computeAssetAllocation (map (withDefaults u) ps) = Ai_computeAssetAllocation ps"
  by (simp add: Ai_computeAssetAllocation_def)

lemma computeDiversification_withDefaults [simp]:
  "computeDiversification (map (withDefaults u) ps) a = computeDiversification ps a"
  by (simp add: computeDiversification_def)

lemma Ai_computeDiversification_withDefaults [simp]:
  "Ai_computeDiversification (map (withDefaults u) ps) a = Ai_computeDiversification ps a"
  by (simp add: Ai_computeDiversification_def)

lemma getAnalytics_withDefaults:
  "getAnalytics now (map (withDefaults u) ps) = getAnalytics now ps"
proof -
  obtain c where "computeConcentrationRisk ps = Inr c"
    using computeConcentrationRisk_total by blast
  then show ?thesis
    by (simp add: getAnalytics_def computeConcentrationRisk_withDefaults Let_def)
qed

lemma getSummary_withDefaults:
  "getSummary now u (map (withDefaults u) ps) = getSummary now u ps"
proof -
  obtain c where "computeConcentration (sortDescending allocationOf ps) = Inr c"
    using computeConcentration_total by blast
  then show ?thesis
    by (simp add: getSummary_def sortDescending_withDefaults
          computeConcentration_withDefaults comp_def Let_def)
qed

lemma getSummary_total: "\<exists>r. getSummary now u ps = Inr r"
proof -
  obtain c where "computeConcentration (sortDescending allocationOf ps) = Inr c"
    using computeConcentration_total by blast
  then show ?thesis by (simp add: getSummary_def Let_def)
qed

subsection \<open>The class map as a function of the multiset of holdings\<close>

lemma Map_get_None_iff: "Map_get m k = None \<longleftrightarrow> k \<notin> fst ` set m"
  by (induction m) (force split: if_splits)+

lemma Map_get_Map_set: "Map_get (Map_set m k v) k' = (if k' = k then Some v else Map_get m k')"
  by (induction m) auto

lemma keys_Map_set: "fst ` set (Map_set m k v) = insert k (fst ` set m)"
proof (induction m)
  case Nil
  then show ?case by simp
next
  case (Cons e m)
  obtain k' v' where e: "e = (k', v')" by (cases e)
  show ?case
  proof (cases "k' = k")
    case True
    with e show ?thesis by simp
  next
    case False
    with e have "fst ` set (Map_set (e # m) k v) = insert k' (fst ` set (Map_set m k v))"
      by simp
    also have "\<dots> = insert k' (insert k (fst ` set m))"
      by (simp only: Cons)
    finally show ?thesis using e by auto
  qed
qed

lemma distinct_keys_Map_set:
  "distinct (map fst (Map_set m k v)) = distinct (map fst m)"
proof (induction m)
  case Nil
  then show ?case by simp
next
  case (Cons e m)
  obtain k' v' where e: "e = (k', v')" by (cases e)
  show ?case
  proof (cases "k' = k")
    case True
    with e show ?thesis by simp
  next
    case False
    have "k' \<in> fst ` set (Map_set m k v) \<longleftrightarrow> k' \<in> fst ` set m"
      using False by (simp add: keys_Map_set)
    with False e Cons show ?thesis by (simp add: image_image)
  qed
qed

lemma classMapStep_get:
  "nullish (Map_get (classMapStep m p) c) (0, 0) =
     (if c = classOf p
      then (fst (nullish (Map_get m c) (0, 0)) + allocationOf p,
            snd (nullish (Map_get m c) (0, 0)) + valueOf p)
      else nullish (Map_get m c) (0, 0))"
  by (simp add: classMapStep_def Let_def Map_get_Map_set classOf_def allocationOf_def
        valueOf_def) (simp add: nullish_def)

lemma classMapStep_keys: "fst ` set (classMapStep m p) = insert (classOf p) (fst ` set m)"
  by (simp add: classMapStep_def Let_def keys_Map_set classOf_def)

lemma classMapStep_distinct:
  "distinct (map fst (classMapStep m p)) = distinct (map fst m)"
  by (simp add: classMapStep_def Let_def distinct_keys_Map_set)

lemma foldl_classMapStep_keys:
  "fst ` set (foldl classMapStep m ps) = fst ` set m \<union> classOf ` set ps"
  by (induction ps arbitrary: m) (auto simp: classMapStep_keys)

lemma foldl_classMapStep_distinct:
  "distinct (map fst (foldl classMapStep m ps)) = distinct (map fst m)"
  by (induction ps arbitrary: m) (simp_all add: classMapStep_distinct)

lemma foldl_classMapStep_get:
  "nullish (Map_get (foldl classMapStep m ps) c) (0, 0) =
     (fst (nullish (Map_get m c) (0, 0)) + (\<Sum>p\<leftarrow>filter (\<lambda>p. classOf p = c) ps. allocationOf p),
      snd (nullish (Map_get m c) (0, 0)) + (\<Sum>p\<leftarrow>filter (\<lambda>p. classOf p = c) ps. valueOf p))"
proof (induction ps arbitrary: m)
  case Nil
  then show ?case by simp
next
  case (Cons p ps)
  show ?case
    by (cases "classOf p = c") (simp_all add: Cons [of "classMapStep m p"] classMapStep_get)
qed

lemma buildClassMap_keys: "fst ` set (buildClassMap ps) = classOf ` set ps"
  by (simp add: buildClassMap_def foldl_classMapStep_keys)

lemma buildClassMap_distinct: "distinct (map fst (buildClassMap ps))"
  by (simp add: buildClassMap_def foldl_classMapStep_distinct)

lemma buildClassMap_get:
  "Map_get (buildClassMap ps) c =
     (if c \<in> classOf ` set ps
      then Some ((\<Sum>p\<leftarrow>filter (\<lambda>p. classOf p = c) ps. allocationOf p),
                 (\<Sum>p\<leftarrow>filter (\<lambda>p. classOf p = c) ps. valueOf p))
      else None)"
proof (cases "c \<in> classOf ` set ps")
  case True
  then have "Map_get (buildClassMap ps) c \<noteq> None"
    by (simp add: Map_get_None_iff buildClassMap_keys)
  then obtain t where t: "Map_get (buildClassMap ps) c = Some t" by blast
  have "nullish (Map_get (buildClassMap ps) c) (0, 0) =
          ((\<Sum>p\<leftarrow>filter (\<lambda>p. classOf p = c) ps. allocationOf p),
           (\<Sum>p\<leftarrow>filter (\<lambda>p. classOf p = c) ps. valueOf p))"
    unfolding buildClassMap_def foldl_classMapStep_get by (simp add: nullish_def)
  with t True show ?thesis by (simp add: nullish_def)
next
  case False
  then show ?thesis by (simp add: Map_get_None_iff buildClassMap_keys)
qed

lemma Map_get_Some_iff:
  "distinct (map fst m) \<Longrightarrow> Map_get m k = Some v \<longleftrightarrow> (k, v) \<in> set m"
proof (induction m)
  case Nil
  then show ?case by simp
next
  case (Cons e m)
  obtain k' v' where e: "e = (k', v')" by (cases e)
  show ?case
  proof (cases "k' = k")
    case True
    then have "(k, v) \<notin> set m" for v
      using Cons.prems e by (auto simp: image_iff)
    with True e show ?thesis by auto
  next
    case False
    with Cons e show ?thesis by auto
  qed
qed

lemma sum_list_filter_mset_cong:
  fixes f :: "'a \<Rightarrow> real"
  assumes "mset xs = mset ys"
  shows "(\<Sum>x\<leftarrow>filter P xs. f x) = (\<Sum>x\<leftarrow>filter P ys. f x)"
proof -
  have "mset (map f (filter P xs)) = mset (map f (filter P ys))"
    using assms by simp
  then have "sum_mset (mset (map f (filter P xs))) = sum_mset (mset (map f (filter P ys)))"
    by (simp only:)
  then show ?thesis by (simp only: sum_mset_sum_list)
qed

lemma buildClassMap_mset_cong:
  assumes "mset ps = mset qs"
  shows "mset (buildClassMap ps) = mset (buildClassMap qs)"
proof -
  have sets: "set ps = set qs" using assms by (rule mset_eq_setD)
  have get: "Map_get (buildClassMap ps) c = Map_get (buildClassMap qs) c" for c
    unfolding buildClassMap_get sets
    using sum_list_filter_mset_cong [OF assms, where P = "\<lambda>p. classOf p = c"] by simp
  have "set (buildClassMap ps) = set (buildClassMap qs)"
  proof (rule set_eqI)
    fix e :: "string \<times> (number \<times> number)"
    obtain k v where e: "e = (k, v)" by (cases e)
    have "e \<in> set (buildClassMap ps) \<longleftrightarrow> Map_get (buildClassMap ps) k = Some v"
      unfolding e by (simp add: Map_get_Some_iff buildClassMap_distinct)
    also have "\<dots> \<longleftrightarrow> Map_get (buildClassMap qs) k = Some v"
      by (simp only: get)
    also have "\<dots> \<longleftrightarrow> e \<in> set (buildClassMap qs)"
      unfolding e by (simp add: Map_get_Some_iff buildClassMap_distinct)
    finally show "e \<in> set (buildClassMap ps) \<longleftrightarrow> e \<in> set (buildClassMap qs)" .
  qed
  moreover have "distinct (buildClassMap ps)" "distinct (buildClassMap qs)"
    using buildClassMap_distinct distinct_map by blast+
  ultimately show ?thesis by (simp add: set_eq_iff_mset_eq_distinct)
qed

subsection \<open>The two allocation lists\<close>

lemma Ai_allocationEntry_scale:
  "AssetAllocationEntry.assetClass (Ai_allocationEntry e) =
     AssetAllocationEntry.assetClass (allocationEntry e)"
  "weight (Ai_allocationEntry e) = 100 * weight (allocationEntry e)"
  "countedClass (Ai_allocationEntry e) = countedClass (allocationEntry e)"
  by (simp_all add: Ai_allocationEntry_def allocationEntry_def countedClass_def
        case_prod_beta)

lemma sorted_mset_unique:
  fixes xs ys :: "real list"
  assumes "sorted xs" and "sorted ys" and "mset xs = mset ys"
  shows "xs = ys"
proof -
  have "sort xs = xs" using assms(1) by (simp add: sort_key_id_if_sorted)
  moreover have "sort xs = ys" using assms(2,3) by (intro properties_for_sort) simp_all
  ultimately show ?thesis by simp
qed

lemma mset_computeAssetAllocation:
  "mset (computeAssetAllocation ps) = image_mset allocationEntry (mset (buildClassMap ps))"
  by (simp add: computeAssetAllocation_def sortDescending_def)

lemma mset_Ai_computeAssetAllocation:
  "mset (Ai_computeAssetAllocation ps) = image_mset Ai_allocationEntry (mset (buildClassMap ps))"
  by (simp add: Ai_computeAssetAllocation_def sortDescending_def)

lemma assetClassCountOf_mset:
  "assetClassCountOf allocation = size (filter_mset countedClass (mset allocation))"
  by (simp add: assetClassCountOf_def flip: mset_filter)

lemma classHhi_mset:
  "classHhi allocation =
     sum_mset (image_mset (\<lambda>a. weight a * weight a) (filter_mset countedClass (mset allocation)))"
  unfolding classHhi_sum_list by (simp flip: mset_filter mset_map add: sum_mset_sum_list)

lemma Ai_classHhi_mset:
  "Ai_classHhi allocation =
     sum_mset (image_mset (\<lambda>a. (weight a / 100) * (weight a / 100))
       (filter_mset countedClass (mset allocation)))"
  unfolding Ai_classHhi_sum_list by (simp flip: mset_filter mset_map add: sum_mset_sum_list)

lemma allocation_counts_agree:
  assumes "mset qs = mset ps"
  shows "assetClassCountOf (Ai_computeAssetAllocation qs) =
           assetClassCountOf (computeAssetAllocation ps)"
  unfolding assetClassCountOf_mset mset_computeAssetAllocation mset_Ai_computeAssetAllocation
    buildClassMap_mset_cong [OF assms]
  by (simp add: filter_mset_image_mset Ai_allocationEntry_scale)

lemma allocation_classHhi_agree:
  assumes "mset qs = mset ps"
  shows "Ai_classHhi (Ai_computeAssetAllocation qs) = classHhi (computeAssetAllocation ps)"
  unfolding classHhi_mset Ai_classHhi_mset mset_computeAssetAllocation
    mset_Ai_computeAssetAllocation buildClassMap_mset_cong [OF assms]
  by (simp add: filter_mset_image_mset Ai_allocationEntry_scale multiset.map_comp comp_def)

lemma allocation_entries_agree:
  assumes "mset qs = mset ps"
  shows "mset (map (\<lambda>e. (AssetAllocationEntry.assetClass e, weight e))
                 (Ai_computeAssetAllocation qs)) =
         mset (map (\<lambda>e. (AssetAllocationEntry.assetClass e, 100 * weight e))
                 (computeAssetAllocation ps))"
  unfolding mset_map mset_computeAssetAllocation mset_Ai_computeAssetAllocation
    buildClassMap_mset_cong [OF assms]
  by (simp add: Ai_allocationEntry_scale multiset.map_comp comp_def)

lemma allocation_weights_agree:
  assumes "mset qs = mset ps"
  shows "map weight (Ai_computeAssetAllocation qs) =
           map (\<lambda>e. 100 * weight e) (computeAssetAllocation ps)"
proof -
  let ?nS = "map (\<lambda>e. - weight e) (Ai_computeAssetAllocation qs)"
  let ?nA = "map (\<lambda>e. - weight e) (computeAssetAllocation ps)"
  have sS: "sorted ?nS"
    by (simp add: Ai_computeAssetAllocation_def sortDescending_def)
  have "sorted ?nA"
    by (simp add: computeAssetAllocation_def sortDescending_def)
  then have sA: "sorted (map (\<lambda>y. 100 * y) ?nA)"
    by (simp add: sorted_map comp_def sorted_wrt_map)
  have "mset ?nS = mset (map (\<lambda>y. 100 * y) ?nA)"
    unfolding mset_map mset_computeAssetAllocation mset_Ai_computeAssetAllocation
      buildClassMap_mset_cong [OF assms]
    by (simp add: Ai_allocationEntry_scale multiset.map_comp comp_def)
  with sS sA have "?nS = map (\<lambda>y. 100 * y) ?nA"
    by (rule sorted_mset_unique)
  then have "map uminus ?nS = map uminus (map (\<lambda>y. 100 * y) ?nA)"
    by (simp only:)
  then show ?thesis by (simp add: comp_def)
qed

subsection \<open>The sorted array of \<open>getSummary\<close>\<close>

lemma mset_sortDescending: "mset (sortDescending k xs) = mset xs"
  by (simp add: sortDescending_def)

lemma sortDescending_idem: "sortDescending k (sortDescending k xs) = sortDescending k xs"
  unfolding sortDescending_def by (rule sort_key_id_if_sorted) simp

lemma holdingsCountOf_mset_cong:
  assumes "mset qs = mset ps"
  shows "holdingsCountOf qs = holdingsCountOf ps"
proof -
  have "holdingsCountOf xs =
          size (filter_mset (\<lambda>p. PortfolioPosition.assetClass p \<noteq> Some ''LIQUIDITY'') (mset xs))"
    for xs
    by (simp add: holdingsCountOf_def flip: mset_filter)
  then show ?thesis using assms by simp
qed

lemma hhiOf_mset_cong:
  assumes "mset qs = mset ps"
  shows "hhiOf qs = hhiOf ps"
proof -
  have "hhiOf xs = sum_mset (image_mset (\<lambda>p. allocationOf p * allocationOf p) (mset xs))" for xs
    unfolding hhiOf_sum_list by (simp flip: mset_map add: sum_mset_sum_list)
  then show ?thesis using assms by simp
qed

lemma diversification_agree:
  assumes "mset qs = mset ps"
  shows "score (Ai_computeDiversification qs (Ai_computeAssetAllocation qs)) =
           score (computeDiversification ps (computeAssetAllocation ps))"
    and "assetClassCount (Ai_computeDiversification qs (Ai_computeAssetAllocation qs)) =
           assetClassCount (computeDiversification ps (computeAssetAllocation ps))"
    and "holdingsCount (Ai_computeDiversification qs (Ai_computeAssetAllocation qs)) =
           holdingsCount (computeDiversification ps (computeAssetAllocation ps))"
  by (simp_all add: Ai_computeDiversification_def computeDiversification_def Let_def
        holdingsScore_def classScore_def Ai_evennessScore_def evennessScore_def
        holdingsCountOf_mset_cong [OF assms] allocation_counts_agree [OF assms]
        allocation_classHhi_agree [OF assms])

lemma getSummary_result:
  "\<exists>c. computeConcentration (sortDescending allocationOf ps) = Inr c
       \<and> getSummary now u ps =
           Inr \<lparr>baseCurrency = u,
                holdings = map (summaryHolding u) (sortDescending allocationOf ps),
                concentration = c,
                diversification =
                  Ai_computeDiversification (sortDescending allocationOf ps)
                    (Ai_computeAssetAllocation (sortDescending allocationOf ps)),
                assetAllocation = Ai_computeAssetAllocation (sortDescending allocationOf ps),
                insights =
                  Ai_generateInsights c
                    (Ai_computeDiversification (sortDescending allocationOf ps)
                       (Ai_computeAssetAllocation (sortDescending allocationOf ps)))
                    (Ai_computeAssetAllocation (sortDescending allocationOf ps)),
                computedAt = now\<rparr>"
proof -
  obtain c where "computeConcentration (sortDescending allocationOf ps) = Inr c"
    using computeConcentration_total by blast
  then show ?thesis by (simp add: getSummary_def Let_def)
qed

lemma concentration_agree:
  "\<exists>c c'. computeConcentrationRisk ps = Inr c
        \<and> computeConcentration (sortDescending allocationOf ps) = Inr c'
        \<and> topHoldingSymbol c' = topHoldingSymbol c
        \<and> topHoldingName c' = topHoldingName c
        \<and> topHoldingWeight c' = real_of_int (Math_round (topHoldingWeight c * 10000)) / 100
        \<and> herfindahlIndex c' = herfindahlIndex c
        \<and> isHighlyConcentrated c' = isHighlyConcentrated c"
proof (cases "sortDescending allocationOf ps")
  case Nil
  then have "ps = []" using sortDescending_length [of allocationOf ps] by simp
  then show ?thesis
    by (simp add: computeConcentrationRisk_def computeConcentration_def sortDescending_def
          Math_round_def)
next
  case (Cons y ys)
  let ?qs = "sortDescending allocationOf ps"
  have "sortDescending allocationOf ?qs = ?qs"
    by (rule sortDescending_idem)
  then have "sortDescending allocationOf ?qs = y # ys"
    using Cons by (simp only:)
  moreover have "hhiOf ?qs = hhiOf ps"
    by (rule hhiOf_mset_cong) (rule mset_sortDescending)
  ultimately show ?thesis
    using Cons
    by (simp only: computeConcentrationRisk_Cons [OF Cons] computeConcentration_Cons) simp
qed

lemma round2_percent_error:
  "\<bar>real_of_int (Math_round (x * 10000)) / 100 - 100 * x\<bar> \<le> 5 / 1000"
  using round4_error [of x] by linarith

subsection \<open>Bounds of the diversification score\<close>

lemma score_upper_bound:
  "score (computeDiversification ps allocation) \<le> 100"
  "score (Ai_computeDiversification ps allocation) \<le> 100"
proof -
  have "Math_round (min x 100) \<le> 100" for x
  proof -
    have "Math_round (min x 100) \<le> Math_round (real_of_int 100)"
      by (rule Math_round_mono) simp
    then show ?thesis by (simp only: Math_round_of_int)
  qed
  then show "score (computeDiversification ps allocation) \<le> 100"
    and "score (Ai_computeDiversification ps allocation) \<le> 100"
    by (simp_all add: computeDiversification_def Ai_computeDiversification_def Let_def)
qed

lemma score_lower_bound:
  assumes "classHhi allocation \<le> 1"
  shows "0 \<le> score (computeDiversification ps allocation)"
proof -
  have "0 \<le> holdingsScore ps" "0 \<le> classScore allocation"
    by (simp_all add: holdingsScore_def classScore_def)
  moreover have "0 \<le> evennessScore allocation"
    using assms by (simp add: evennessScore_def)
  ultimately have
    "0 \<le> min (holdingsScore ps + classScore allocation + evennessScore allocation) 100"
    by simp
  then have
    "0 \<le> Math_round (min (holdingsScore ps + classScore allocation + evennessScore allocation) 100)"
    by (rule Math_round_nonneg)
  then show ?thesis by (simp add: computeDiversification_def Let_def)
qed

lemma buildClassMap_weight_nonneg:
  assumes "\<forall>p\<in>set ps. 0 \<le> allocationOf p" and "e \<in> set (buildClassMap ps)"
  shows "0 \<le> fst (snd e)"
proof -
  obtain k w v where e: "e = (k, (w, v))" by (cases e) auto
  then have "Map_get (buildClassMap ps) k = Some (w, v)"
    using assms(2) by (simp add: Map_get_Some_iff buildClassMap_distinct)
  then have "w = (\<Sum>p\<leftarrow>filter (\<lambda>p. classOf p = k) ps. allocationOf p)"
    by (simp add: buildClassMap_get split: if_splits)
  moreover have "0 \<le> (\<Sum>p\<leftarrow>filter (\<lambda>p. classOf p = k) ps. allocationOf p)"
    using assms(1) by (intro sum_list_map_nonneg) simp
  ultimately show ?thesis using e by simp
qed

lemma Math_round_small:
  assumes "0 \<le> x" and "x < 1 / 2"
  shows "Math_round x = 0"
  unfolding Math_round_def using assms by linarith

lemma round4_square:
  assumes "0 \<le> w"
  shows "(real_of_int (Math_round (w * 10000)) / 10000)
           * (real_of_int (Math_round (w * 10000)) / 10000)
         \<le> w * w + 3 * (5 / 100000) * w"
proof (cases "w < 5 / 100000")
  case True
  then have "Math_round (w * 10000) = 0"
    using assms by (intro Math_round_small) simp_all
  then show ?thesis using assms by simp
next
  case False
  define r where "r = real_of_int (Math_round (w * 10000)) / 10000"
  have "0 \<le> Math_round (w * 10000)"
    using assms by (intro Math_round_nonneg) simp
  then have r0: "0 \<le> r" by (simp add: r_def)
  have "r \<le> w + 5 / 100000"
    using round4_error [of w] unfolding r_def by linarith
  then have "r * r \<le> (w + 5 / 100000) * (w + 5 / 100000)"
    using r0 by (intro mult_mono) simp_all
  also have "\<dots> = w * w + 2 * (5 / 100000) * w + (5 / 100000) * (5 / 100000)"
    by (simp add: algebra_simps)
  also have "\<dots> \<le> w * w + 2 * (5 / 100000) * w + (5 / 100000) * w"
    using False by simp
  finally show ?thesis unfolding r_def by simp
qed

lemma sum_list_filter_le:
  fixes f :: "'a \<Rightarrow> real"
  assumes "\<forall>x\<in>set xs. 0 \<le> f x"
  shows "(\<Sum>x\<leftarrow>filter P xs. f x) \<le> (\<Sum>x\<leftarrow>xs. f x)"
  using assms by (induction xs) auto

lemma sum_list_mono_on:
  fixes f g :: "'a \<Rightarrow> real"
  assumes "\<forall>x\<in>set xs. f x \<le> g x"
  shows "(\<Sum>x\<leftarrow>xs. f x) \<le> (\<Sum>x\<leftarrow>xs. g x)"
  using assms by (induction xs) (auto intro: add_mono)

lemma sum_list_square_plus_linear:
  fixes f :: "'a \<Rightarrow> real"
  shows "(\<Sum>x\<leftarrow>xs. f x * f x + c * f x) = (\<Sum>x\<leftarrow>xs. f x * f x) + c * (\<Sum>x\<leftarrow>xs. f x)"
  by (induction xs) (simp_all add: algebra_simps)

lemma classHhi_le:
  assumes "\<forall>p\<in>set ps. 0 \<le> allocationOf p" and "(\<Sum>p\<leftarrow>ps. allocationOf p) \<le> 1"
  shows "classHhi (computeAssetAllocation ps) \<le> 1 + 3 * (5 / 100000)"
proof -
  let ?m = "buildClassMap ps"
  let ?r = "\<lambda>e. real_of_int (Math_round (fst (snd e) * 10000)) / 10000"
  let ?S = "\<Sum>e\<leftarrow>?m. fst (snd e)"
  have nonneg: "\<forall>e\<in>set ?m. 0 \<le> fst (snd e)"
    using assms(1) buildClassMap_weight_nonneg by blast
  have S: "?S = (\<Sum>p\<leftarrow>ps. allocationOf p)" by (rule buildClassMap_weight_sum)
  have S0: "0 \<le> ?S" using nonneg by (rule sum_list_map_nonneg)
  have "classHhi (computeAssetAllocation ps) \<le> (\<Sum>a\<leftarrow>computeAssetAllocation ps. weight a * weight a)"
    unfolding classHhi_sum_list by (rule sum_list_filter_le) simp
  also have "\<dots> = (\<Sum>a\<leftarrow>map allocationEntry ?m. weight a * weight a)"
    unfolding computeAssetAllocation_def sortDescending_def by (rule sum_list_sort_key)
  also have "\<dots> = (\<Sum>e\<leftarrow>?m. ?r e * ?r e)"
    by (simp add: comp_def allocationEntry_def case_prod_beta)
  also have "\<dots> \<le> (\<Sum>e\<leftarrow>?m. fst (snd e) * fst (snd e) + 3 * (5 / 100000) * fst (snd e))"
    by (rule sum_list_mono_on) (use nonneg round4_square in blast)
  also have "\<dots> = (\<Sum>e\<leftarrow>?m. fst (snd e) * fst (snd e)) + 3 * (5 / 100000) * ?S"
    by (rule sum_list_square_plus_linear)
  also have "\<dots> \<le> ?S * ?S + 3 * (5 / 100000) * ?S"
    using sum_list_nonneg_squares [OF nonneg] by simp
  also have "\<dots> \<le> 1 * 1 + 3 * (5 / 100000) * 1"
    using S0 assms(2) unfolding S by (intro add_mono mult_mono) simp_all
  finally show ?thesis by simp
qed

text \<open>
  When the fractions are non-negative and sum to at most 1, the score of
  \<open>getAnalytics\<close> is within its range: rounding the class weights can lift the
  asset-class HHI above 1 only by 0.00015, less than the half point that rounds away.
\<close>

lemma score_range_when_fractions_sum_to_at_most_one:
  assumes "\<forall>p\<in>set ps. 0 \<le> allocationOf p" and "(\<Sum>p\<leftarrow>ps. allocationOf p) \<le> 1"
  shows "0 \<le> score (computeDiversification ps (computeAssetAllocation ps))"
    and "score (computeDiversification ps (computeAssetAllocation ps)) \<le> 100"
proof -
  let ?a = "computeAssetAllocation ps"
  have "0 \<le> holdingsScore ps" "0 \<le> classScore ?a"
    by (simp_all add: holdingsScore_def classScore_def)
  moreover have "- (1 / 2) \<le> evennessScore ?a"
    using classHhi_le [OF assms] by (simp add: evennessScore_def)
  ultimately have "- (1 / 2) \<le> min (holdingsScore ps + classScore ?a + evennessScore ?a) 100"
    by simp
  then have "0 \<le> Math_round (min (holdingsScore ps + classScore ?a + evennessScore ?a) 100)"
    unfolding Math_round_def by simp
  then show "0 \<le> score (computeDiversification ps ?a)"
    by (simp add: computeDiversification_def Let_def)
  show "score (computeDiversification ps ?a) \<le> 100"
    by (rule score_upper_bound)
qed

subsection \<open>The two endpoints in exact arithmetic\<close>

text \<open>
  With exact reals in place of doubles the two endpoints return the same
  diversification score, asset-class count, holdings count, Herfindahl index and
  concentration flag, and the same allocation weights times 100, position by position
  and class by class. The top-holding weight of the summary is the percentage rounded
  to two decimals, within 0.005 of 100 times the fraction that the analytics endpoint
  returns.
\<close>

lemma endpoints_agree_in_exact_arithmetic:
  "\<exists>a s. getAnalytics now1 ps = Inr a \<and> getSummary now2 userCurrency ps = Inr s
     \<and> score (AiSummaryResponse.diversification s) =
         score (PortfolioAnalyticsResponse.diversification a)
     \<and> assetClassCount (AiSummaryResponse.diversification s) =
         assetClassCount (PortfolioAnalyticsResponse.diversification a)
     \<and> holdingsCount (AiSummaryResponse.diversification s) =
         holdingsCount (PortfolioAnalyticsResponse.diversification a)
     \<and> herfindahlIndex (concentration s) = herfindahlIndex (concentrationRisk a)
     \<and> isHighlyConcentrated (concentration s) = isHighlyConcentrated (concentrationRisk a)
     \<and> map weight (AiSummaryResponse.assetAllocation s) =
         map (\<lambda>e. 100 * weight e) (PortfolioAnalyticsResponse.assetAllocation a)
     \<and> mset (map (\<lambda>e. (AssetAllocationEntry.assetClass e, weight e))
               (AiSummaryResponse.assetAllocation s)) =
         mset (map (\<lambda>e. (AssetAllocationEntry.assetClass e, 100 * weight e))
               (PortfolioAnalyticsResponse.assetAllocation a))
     \<and> topHoldingWeight (concentration s) =
         real_of_int (Math_round (topHoldingWeight (concentrationRisk a) * 10000)) / 100
     \<and> \<bar>topHoldingWeight (concentration s) - 100 * topHoldingWeight (concentrationRisk a)\<bar>
         \<le> 5 / 1000"
proof -
  let ?qs = "sortDescending allocationOf ps"
  have m: "mset ?qs = mset ps" by (rule mset_sortDescending)
  obtain c c' where c: "computeConcentrationRisk ps = Inr c"
      "computeConcentration ?qs = Inr c'"
      "topHoldingWeight c' = real_of_int (Math_round (topHoldingWeight c * 10000)) / 100"
      "herfindahlIndex c' = herfindahlIndex c"
      "isHighlyConcentrated c' = isHighlyConcentrated c"
    using concentration_agree [of ps] by blast
  have e: "\<bar>topHoldingWeight c' - 100 * topHoldingWeight c\<bar> \<le> 5 / 1000"
    unfolding c(3) by (rule round2_percent_error)
  show ?thesis
    using c e getAnalytics_result [of ps now1] getSummary_result [of ps now2 userCurrency]
      diversification_agree [OF m] allocation_weights_agree [OF m]
      allocation_entries_agree [OF m]
    by auto
qed

subsection \<open>Rounding to the nearest double\<close>

text \<open>The rounding is odd, monotone, and exact at 2500 and at 0.25.\<close>

lemma roundHalfEven_bounds:
  "\<lfloor>m\<rfloor> \<le> roundHalfEven m" "roundHalfEven m \<le> \<lfloor>m\<rfloor> + 1"
  by (simp_all add: roundHalfEven_def Let_def)

lemma roundHalfEven_of_int: "roundHalfEven (real_of_int n) = n"
  by (simp add: roundHalfEven_def Let_def)

lemma roundHalfEven_mono:
  assumes "m \<le> m'"
  shows "roundHalfEven m \<le> roundHalfEven m'"
proof (cases "\<lfloor>m\<rfloor> < \<lfloor>m'\<rfloor>")
  case True
  have "roundHalfEven m \<le> \<lfloor>m\<rfloor> + 1" by (rule roundHalfEven_bounds)
  also have "\<dots> \<le> \<lfloor>m'\<rfloor>" using True by simp
  also have "\<dots> \<le> roundHalfEven m'" by (rule roundHalfEven_bounds)
  finally show ?thesis .
next
  case False
  with floor_mono [OF assms] have eq: "\<lfloor>m'\<rfloor> = \<lfloor>m\<rfloor>" by simp
  show ?thesis
    using assms by (auto simp add: roundHalfEven_def Let_def eq)
qed

lemma two_powi_Suc: "(2::real) powi (k + 1) = 2 * 2 powi k"
  by (simp add: power_int_add)

lemma binaryExponent_range:
  assumes "0 < x"
  shows "e - int fuel \<le> binaryExponent fuel x e \<and> binaryExponent fuel x e \<le> e + int fuel
     \<and> (binaryExponent fuel x e < e + int fuel \<longrightarrow>
          x < 2 powi (binaryExponent fuel x e - e + 1))
     \<and> (e - int fuel < binaryExponent fuel x e \<longrightarrow>
          2 powi (binaryExponent fuel x e - e) \<le> x)"
  using assms
proof (induction fuel arbitrary: x e)
  case 0
  then show ?case by (simp add: binaryExponent.simps)
next
  case (Suc n)
  consider "2 \<le> x" | "x < 1" | "1 \<le> x" "x < 2" by linarith
  then show ?case
  proof cases
    case 1
    define r where "r = binaryExponent n (x / 2) (e + 1)"
    have r: "binaryExponent (Suc n) x e = r"
      using 1 by (simp add: binaryExponent.simps [of "Suc n"] r_def)
    have "0 < x / 2" using Suc.prems by simp
    from Suc.IH [OF this, of "e + 1", folded r_def]
    have ih: "e + 1 - int n \<le> r" "r \<le> e + 1 + int n"
        "r < e + 1 + int n \<longrightarrow> x / 2 < 2 powi (r - (e + 1) + 1)"
        "e + 1 - int n < r \<longrightarrow> 2 powi (r - (e + 1)) \<le> x / 2"
      by blast+
    have a: "x < 2 powi (r - e + 1)" if "r < e + int (Suc n)"
    proof -
      from that ih(3) have "x / 2 < 2 powi (r - e)" by simp
      then show ?thesis by (simp add: two_powi_Suc)
    qed
    have b: "2 powi (r - e) \<le> x" if "e - int (Suc n) < r"
    proof (cases "e + 1 - int n < r")
      case True
      with ih(4) have "2 powi (r - e - 1) \<le> x / 2" by (simp add: algebra_simps)
      moreover have "(2::real) powi (r - e) = 2 * 2 powi (r - e - 1)"
        using two_powi_Suc [of "r - e - 1"] by simp
      ultimately show ?thesis by simp
    next
      case False
      with ih(1) have "r - e \<le> 1" by simp
      then have "(2::real) powi (r - e) \<le> 2 powi 1" by (intro power_int_increasing) simp_all
      with 1 show ?thesis by simp
    qed
    show ?thesis unfolding r using ih(1,2) a b by simp
  next
    case 2
    define r where "r = binaryExponent n (x * 2) (e - 1)"
    have r: "binaryExponent (Suc n) x e = r"
      using 2 by (simp add: binaryExponent.simps [of "Suc n"] r_def)
    have "0 < x * 2" using Suc.prems by simp
    from Suc.IH [OF this, of "e - 1", folded r_def]
    have ih: "e - 1 - int n \<le> r" "r \<le> e - 1 + int n"
        "r < e - 1 + int n \<longrightarrow> x * 2 < 2 powi (r - (e - 1) + 1)"
        "e - 1 - int n < r \<longrightarrow> 2 powi (r - (e - 1)) \<le> x * 2"
      by blast+
    have a: "x < 2 powi (r - e + 1)" if "r < e + int (Suc n)"
    proof (cases "r < e - 1 + int n")
      case True
      have "r - (e - 1) + 1 = (r - e + 1) + 1" by linarith
      with True ih(3) have "x * 2 < 2 powi ((r - e + 1) + 1)" by (simp only:)
      then have "x * 2 < 2 * 2 powi (r - e + 1)" by (simp only: two_powi_Suc)
      then show ?thesis by linarith
    next
      case False
      with ih(2) have "0 \<le> r - e + 1" by simp
      then have "(2::real) powi 0 \<le> 2 powi (r - e + 1)"
        by (intro power_int_increasing) simp_all
      with 2 show ?thesis by simp
    qed
    have b: "2 powi (r - e) \<le> x" if "e - int (Suc n) < r"
    proof -
      from that ih(4) have "2 powi (r - e + 1) \<le> x * 2" by (simp add: algebra_simps)
      then show ?thesis by (simp add: two_powi_Suc)
    qed
    show ?thesis unfolding r using ih(1,2) a b by simp
  next
    case 3
    then have r: "binaryExponent (Suc n) x e = e"
      by (simp add: binaryExponent.simps [of "Suc n"])
    show ?thesis unfolding r using 3 by simp
  qed
qed

lemma ulp_powi:
  "(if 52 \<le> e then 2 ^ nat (e - 52) else 1 / 2 ^ nat (52 - e)) = (2::real) powi (e - 52)"
  by (simp add: power_int_def power_inverse inverse_eq_divide power_one_over)

lemma toDouble_pos:
  assumes "0 < x"
  shows "toDouble x =
     real_of_int (roundHalfEven (x / 2 powi (binaryExponent 1100 x 0 - 52)))
       * 2 powi (binaryExponent 1100 x 0 - 52)"
  using assms by (simp add: toDouble_def Let_def ulp_powi)

lemma toDouble_minus: "toDouble (- x) = - toDouble x"
  by (simp add: toDouble_def Let_def)

lemma toDouble_nonneg:
  assumes "0 \<le> x"
  shows "0 \<le> toDouble x"
proof (cases "x = 0")
  case True
  then show ?thesis by (simp add: toDouble_def)
next
  case False
  with assms have x: "0 < x" by simp
  let ?u = "(2::real) powi (binaryExponent 1100 x 0 - 52)"
  have u: "0 < ?u" by (rule zero_less_power_int) simp
  then have "0 \<le> x / ?u" using x by simp
  then have "0 \<le> \<lfloor>x / ?u\<rfloor>" by simp
  also have "\<dots> \<le> roundHalfEven (x / ?u)" by (rule roundHalfEven_bounds)
  finally have "0 \<le> real_of_int (roundHalfEven (x / ?u))" by simp
  with u show ?thesis unfolding toDouble_pos [OF x] by simp
qed

lemma toDouble_mono_pos:
  assumes "0 < x" and "x \<le> y"
  shows "toDouble x \<le> toDouble y"
proof -
  define kx where "kx = binaryExponent 1100 x 0"
  define ky where "ky = binaryExponent 1100 y 0"
  have y: "0 < y" using assms by simp
  from binaryExponent_range [OF assms(1), of 0 1100, folded kx_def]
  have kx: "- 1100 \<le> kx" "kx \<le> 1100" "kx < 1100 \<longrightarrow> x < 2 powi (kx + 1)"
      "- 1100 < kx \<longrightarrow> 2 powi kx \<le> x"
    by simp_all
  from binaryExponent_range [OF y, of 0 1100, folded ky_def]
  have ky: "- 1100 \<le> ky" "ky \<le> 1100" "ky < 1100 \<longrightarrow> y < 2 powi (ky + 1)"
      "- 1100 < ky \<longrightarrow> 2 powi ky \<le> y"
    by simp_all
  let ?ux = "(2::real) powi (kx - 52)"
  let ?uy = "(2::real) powi (ky - 52)"
  have ux: "0 < ?ux" and uy: "0 < ?uy" by (rule zero_less_power_int, simp)+
  have tx: "toDouble x = real_of_int (roundHalfEven (x / ?ux)) * ?ux"
    unfolding kx_def by (rule toDouble_pos [OF assms(1)])
  have ty: "toDouble y = real_of_int (roundHalfEven (y / ?uy)) * ?uy"
    unfolding ky_def by (rule toDouble_pos [OF y])
  have le: "kx \<le> ky"
  proof (rule ccontr)
    assume "\<not> kx \<le> ky"
    then have lt: "ky < kx" by simp
    with kx(2) ky(3) have "y < 2 powi (ky + 1)" by simp
    also have "(2::real) powi (ky + 1) \<le> 2 powi kx"
      using lt by (intro power_int_increasing) simp_all
    also have "\<dots> \<le> x" using lt ky(1) kx(4) by simp
    finally show False using assms(2) by simp
  qed
  show ?thesis
  proof (cases "kx = ky")
    case True
    have "x / ?ux \<le> y / ?ux" using assms(2) ux by (simp add: divide_right_mono)
    then have "roundHalfEven (x / ?ux) \<le> roundHalfEven (y / ?ux)"
      by (rule roundHalfEven_mono)
    then have "real_of_int (roundHalfEven (x / ?ux)) * ?ux
        \<le> real_of_int (roundHalfEven (y / ?ux)) * ?ux"
      using ux by (intro mult_right_mono) simp_all
    then show ?thesis unfolding tx ty True .
  next
    case False
    with le have lt: "kx < ky" by simp
    have p53: "(2::real) powi (kx + 1) = 2 ^ 53 * ?ux"
    proof -
      have "(2::real) powi (kx + 1) = 2 powi (53 + (kx - 52))"
        by (rule arg_cong [where f = "\<lambda>k. 2 powi k"]) linarith
      also have "\<dots> = 2 powi 53 * ?ux" by (rule power_int_add) simp
      finally show ?thesis by simp
    qed
    have p52: "(2::real) powi ky = 2 ^ 52 * ?uy"
    proof -
      have "(2::real) powi ky = 2 powi (52 + (ky - 52))"
        by (rule arg_cong [where f = "\<lambda>k. 2 powi k"]) linarith
      also have "\<dots> = 2 powi 52 * ?uy" by (rule power_int_add) simp
      finally show ?thesis by simp
    qed
    from lt ky(2) kx(3) have "x < 2 ^ 53 * ?ux" unfolding p53 by simp
    then have "x / ?ux \<le> real_of_int (2 ^ 53)" using ux by (simp add: field_simps)
    then have "roundHalfEven (x / ?ux) \<le> roundHalfEven (real_of_int (2 ^ 53))"
      by (rule roundHalfEven_mono)
    then have "roundHalfEven (x / ?ux) \<le> 2 ^ 53" by (simp only: roundHalfEven_of_int)
    then have "real_of_int (roundHalfEven (x / ?ux)) \<le> real_of_int (2 ^ 53)"
      by (simp only: of_int_le_iff)
    then have "real_of_int (roundHalfEven (x / ?ux)) \<le> 2 ^ 53" by simp
    then have "toDouble x \<le> 2 ^ 53 * ?ux" unfolding tx using ux by (intro mult_right_mono) simp_all
    then have a: "toDouble x \<le> 2 powi (kx + 1)" unfolding p53 .
    have b: "(2::real) powi (kx + 1) \<le> 2 powi ky"
      using lt by (intro power_int_increasing) simp_all
    from lt kx(1) ky(4) have "2 ^ 52 * ?uy \<le> y" unfolding p52 by simp
    then have "real_of_int (2 ^ 52) \<le> y / ?uy" using uy by (simp add: field_simps)
    then have "roundHalfEven (real_of_int (2 ^ 52)) \<le> roundHalfEven (y / ?uy)"
      by (rule roundHalfEven_mono)
    then have "2 ^ 52 \<le> roundHalfEven (y / ?uy)" by (simp only: roundHalfEven_of_int)
    then have "real_of_int (2 ^ 52) \<le> real_of_int (roundHalfEven (y / ?uy))"
      by (simp only: of_int_le_iff)
    then have "2 ^ 52 \<le> real_of_int (roundHalfEven (y / ?uy))" by simp
    then have "2 ^ 52 * ?uy \<le> toDouble y" unfolding ty using uy by (intro mult_right_mono) simp_all
    then have c: "2 powi ky \<le> toDouble y" unfolding p52 .
    from a b c show ?thesis by linarith
  qed
qed

lemma toDouble_zero: "toDouble 0 = 0"
  by (simp add: toDouble_def)

lemma toDouble_mono:
  assumes "x \<le> y"
  shows "toDouble x \<le> toDouble y"
proof -
  consider "0 < x" | "x \<le> 0" "0 \<le> y" | "y < 0" by linarith
  then show ?thesis
  proof cases
    case 1
    then show ?thesis using assms by (rule toDouble_mono_pos)
  next
    case 2
    then have "0 \<le> toDouble (- x)" "0 \<le> toDouble y" by (simp_all add: toDouble_nonneg)
    then show ?thesis by (simp add: toDouble_minus)
  next
    case 3
    then have "0 < - y" "- y \<le> - x" using assms by simp_all
    then have "toDouble (- y) \<le> toDouble (- x)" by (rule toDouble_mono_pos)
    then show ?thesis by (simp add: toDouble_minus)
  qed
qed

lemma toDouble_threshold: "toDouble 2500 = 2500" "toDouble (1 / 4) = 1 / 4"
  by code_simp+

subsection \<open>The rounding at the values of the scenarios\<close>

lemma double_values_1:
  "toDouble (3 / 20) = 5404319552844595 / 36028797018963968"
  "toDouble (2 / 5) = 3602879701896397 / 9007199254740992"
  "toDouble (29206669829258403248756220714025 / 1298074214633706907132624082305024) = 3242591731706757 / 144115188075855872"
  "toDouble (3242591731706757 / 144115188075855872) = 3242591731706757 / 144115188075855872"
  "toDouble (3242591731706757 / 72057594037927936) = 3242591731706757 / 72057594037927936"
  "toDouble (9727775195120271 / 144115188075855872) = 607985949695017 / 9007199254740992"
  "toDouble (12980742146337070512478121581609 / 81129638414606681695789005144064) = 1441151880758559 / 9007199254740992"
  "toDouble (256142228806697 / 1125899906842624) = 256142228806697 / 1125899906842624"
  by code_simp+

lemma double_values_2:
  "toDouble (36028797018963973 / 144115188075855872) = 4503599627370497 / 18014398509481984"
  "toDouble (2814749767106560625 / 1125899906842624) = 5497558138880001 / 2199023255552"
  "toDouble (1 / 4) = 1 / 4"
  "toDouble (1441151880758559 / 9007199254740992) = 1441151880758559 / 9007199254740992"
  "toDouble (26301021823843701 / 144115188075855872) = 6575255455960925 / 36028797018963968"
  "toDouble (29543613555550457 / 144115188075855872) = 3692951694443807 / 18014398509481984"
  "toDouble (32786205287257213 / 144115188075855872) = 8196551321814303 / 36028797018963968"
  "toDouble (36028797018963969 / 144115188075855872) = 1 / 4"
  by code_simp+

lemma double_values_3:
  "toDouble 2500 = 2500"
  "toDouble (2251799813685248125 / 562949953421312) = 4000"
  "toDouble 40 = 40"
  "toDouble (74 / 125) = 5332261958806667 / 9007199254740992"
  "toDouble (47 / 625) = 5418731071652181 / 72057594037927936"
  "toDouble (383 / 1250) = 86243932864145 / 281474976710656"
  "toDouble (33 / 1250) = 3804640965202595 / 144115188075855872"
  "toDouble (5332261958806667 / 9007199254740992) = 5332261958806667 / 9007199254740992"
  by code_simp+

lemma double_values_4:
  "toDouble (5418731071652181 / 72057594037927936) = 5418731071652181 / 72057594037927936"
  "toDouble (86243932864145 / 281474976710656) = 86243932864145 / 281474976710656"
  "toDouble (3804640965202595 / 144115188075855872) = 3804640965202595 / 144115188075855872"
  "toDouble (3332663724254166875 / 562949953421312) = 5920"
  "toDouble (3386706919782613125 / 4503599627370496) = 752"
  "toDouble (53902458040090625 / 17592186044416) = 3064"
  "toDouble (2377900603251621875 / 9007199254740992) = 264"
  "toDouble (27021597764222975 / 4503599627370496) = 6"
  by code_simp+

lemma double_values_5:
  "toDouble (3 / 5) = 5404319552844595 / 9007199254740992"
  "toDouble (81064793292668925 / 4503599627370496) = 18"
  "toDouble (28433017597336713278398683648889 / 81129638414606681695789005144064) = 6313398159227093 / 18014398509481984"
  "toDouble (6313398159227093 / 18014398509481984) = 6313398159227093 / 18014398509481984"
  "toDouble (7438015955875149983026581025 / 79228162514264337593543950336) = 6764836103570951 / 72057594037927936"
  "toDouble (32018428740479323 / 72057594037927936) = 8004607185119831 / 18014398509481984"
  "toDouble (29362646426888793938657042056761 / 5192296858534827628530496329220096) = 101872144147061 / 18014398509481984"
  "toDouble (2026619832316723 / 4503599627370496) = 2026619832316723 / 4503599627370496"
  by code_simp+

lemma double_values_6:
  "toDouble (2476979795053773 / 4503599627370496) = 2476979795053773 / 4503599627370496"
  "toDouble (37154696925806595 / 2251799813685248) = 33 / 2"
  "toDouble 24 = 24"
  "toDouble (81 / 2) = 81 / 2"
  "toDouble (296 / 5) = 4165829655317709 / 70368744177664"
  "toDouble (766 / 25) = 2156098321603625 / 70368744177664"
  "toDouble (188 / 25) = 2116691824864133 / 281474976710656"
  "toDouble (66 / 25) = 5944751508129055 / 2251799813685248"
  by code_simp+

lemma double_values_7:
  "toDouble (4165829655317709 / 7036874417766400) = 1333065489701667 / 2251799813685248"
  "toDouble (2116691824864133 / 28147497671065600) = 1354682767913045 / 18014398509481984"
  "toDouble (1777063599833545246432662578889 / 5070602400912917605986812821504) = 789174769903387 / 2251799813685248"
  "toDouble (789174769903387 / 2251799813685248) = 789174769903387 / 2251799813685248"
  "toDouble (32018428740479335 / 72057594037927936) = 4002303592559917 / 9007199254740992"
  "toDouble (1835165401680548943824681172025 / 324518553658426726783156020576256) = 3259908612705951 / 576460752303423488"
  "toDouble (259407338536540639 / 576460752303423488) = 8106479329266895 / 18014398509481984"
  "toDouble (9907919180215089 / 18014398509481984) = 619244948763443 / 1125899906842624"
  by code_simp+

lemma double_values_8:
  "toDouble (9288674231451645 / 562949953421312) = 2322168557862911 / 140737488355328"
  "toDouble (5699868278390783 / 140737488355328) = 5699868278390783 / 140737488355328"
  "toDouble (3207635151687077 / 9007199254740992) = 3207635151687077 / 9007199254740992"
  "toDouble (32425917317067567 / 72057594037927936) = 2026619832316723 / 4503599627370496"
  "toDouble (14475292874097733697649394734025 / 20769187434139310514121985316880384) = 200885042962697 / 288230376151711744"
  "toDouble (129904554311232969 / 288230376151711744) = 8119034644452061 / 18014398509481984"
  "toDouble (5074396652782538125 / 1125899906842624) = 4955465481232947 / 1099511627776"
  "toDouble (4507 / 10000) = 4059544704111765 / 9007199254740992"
  by code_simp+

lemmas double_values =
  double_values_1 double_values_2 double_values_3 double_values_4 double_values_5 double_values_6 double_values_7 double_values_8

subsection \<open>The rounded functions\<close>

text \<open>With no rounding the functions are the exact ones.\<close>

lemma hhiOf_fl_exact: "hhiOf_fl (\<lambda>x. x) ps = hhiOf ps"
  by (simp add: hhiOf_fl_def hhiOf_def)

lemma computeConcentrationRisk_fl_exact:
  "computeConcentrationRisk_fl (\<lambda>x. x) ps = computeConcentrationRisk ps"
  by (simp add: computeConcentrationRisk_fl_def computeConcentrationRisk_def hhiOf_fl_exact
        split: list.splits)

lemma computeConcentration_fl_exact:
  "computeConcentration_fl (\<lambda>x. x) ps = computeConcentration ps"
  by (simp add: computeConcentration_fl_def computeConcentration_def hhiOf_fl_exact
        split: list.splits)

lemma classMapStep_fl_exact: "classMapStep_fl (\<lambda>x. x) = classMapStep"
  by (simp add: classMapStep_fl_def classMapStep_def fun_eq_iff)

lemma buildClassMap_fl_exact: "buildClassMap_fl (\<lambda>x. x) ps = buildClassMap ps"
  by (simp add: buildClassMap_fl_def buildClassMap_def classMapStep_fl_exact)

lemma computeAssetAllocation_fl_exact:
  "computeAssetAllocation_fl (\<lambda>x. x) ps = computeAssetAllocation ps"
  "Ai_computeAssetAllocation_fl (\<lambda>x. x) ps = Ai_computeAssetAllocation ps"
proof -
  have "allocationEntry_fl (\<lambda>x. x) = allocationEntry"
    by (simp add: allocationEntry_fl_def allocationEntry_def fun_eq_iff)
  then show "computeAssetAllocation_fl (\<lambda>x. x) ps = computeAssetAllocation ps"
    by (simp add: computeAssetAllocation_fl_def computeAssetAllocation_def
          buildClassMap_fl_exact)
  have "Ai_allocationEntry_fl (\<lambda>x. x) = Ai_allocationEntry"
    by (simp add: Ai_allocationEntry_fl_def Ai_allocationEntry_def fun_eq_iff)
  then show "Ai_computeAssetAllocation_fl (\<lambda>x. x) ps = Ai_computeAssetAllocation ps"
    by (simp add: Ai_computeAssetAllocation_fl_def Ai_computeAssetAllocation_def
          buildClassMap_fl_exact)
qed

lemma score_fl_exact:
  "score_fl (\<lambda>x. x) ps a = score (computeDiversification ps a)"
  "Ai_score_fl (\<lambda>x. x) ps a = score (Ai_computeDiversification ps a)"
  by (simp_all add: score_fl_def Ai_score_fl_def computeDiversification_def
        Ai_computeDiversification_def holdingsScore_fl_def holdingsScore_def classScore_fl_def
        classScore_def classHhi_fl_def classHhi_def Ai_classHhi_fl_def Ai_classHhi_def
        evennessScore_def Ai_evennessScore_def Let_def)

text \<open>
  The flag and the returned index under any rounding that is monotone and leaves 2500
  and 0.25 as they are, as the rounding of doubles does.
\<close>

lemma computeConcentrationRisk_fl_index:
  "\<exists>c. computeConcentrationRisk_fl fl ps = Inr c
       \<and> (ps \<noteq> [] \<longrightarrow>
            herfindahlIndex c =
              fl (real_of_int (Math_round (fl (hhiOf_fl fl ps * 10000))) / 10000)
            \<and> isHighlyConcentrated c = (hhiOf_fl fl ps > 0.25))
       \<and> (ps = [] \<longrightarrow> herfindahlIndex c = 0 \<and> \<not> isHighlyConcentrated c)"
proof (cases ps)
  case Nil
  then show ?thesis by (simp add: computeConcentrationRisk_fl_def)
next
  case (Cons p qs)
  then obtain y ys where "sortDescending allocationOf ps = y # ys"
    using sortDescending_nonempty [of ps allocationOf] by auto
  with Cons show ?thesis by (simp add: computeConcentrationRisk_fl_def Let_def)
qed

lemma computeConcentration_fl_index:
  "\<exists>c. computeConcentration_fl fl ps = Inr c
       \<and> (ps \<noteq> [] \<longrightarrow>
            herfindahlIndex c =
              fl (real_of_int (Math_round (fl (hhiOf_fl fl ps * 10000))) / 10000)
            \<and> isHighlyConcentrated c = (hhiOf_fl fl ps > 0.25))
       \<and> (ps = [] \<longrightarrow> herfindahlIndex c = 0 \<and> \<not> isHighlyConcentrated c)"
proof (cases ps)
  case Nil
  then show ?thesis by (simp add: computeConcentration_fl_def)
next
  case (Cons p qs)
  then obtain y ys where "sortDescending allocationOf ps = y # ys"
    using sortDescending_nonempty [of ps allocationOf] by auto
  with Cons show ?thesis by (simp add: computeConcentration_fl_def Let_def)
qed

lemma flag_index_relation_fl:
  assumes mono: "\<And>x y. x \<le> y \<Longrightarrow> fl x \<le> fl y"
    and f1: "fl 2500 = 2500" and f2: "fl (1 / 4) = 1 / 4"
    and hi: "hi = fl (real_of_int (Math_round (fl (h * 10000))) / 10000)"
    and flag: "flag = (h > 0.25)"
  shows "(hi > 0.25 \<longrightarrow> flag) \<and> (flag \<longrightarrow> hi \<ge> 0.25)"
proof -
  have up: "hi \<le> 1 / 4" if "h \<le> 1 / 4"
  proof -
    from that have "h * 10000 \<le> 2500" by simp
    then have "fl (h * 10000) \<le> fl 2500" by (rule mono)
    then have "fl (h * 10000) \<le> real_of_int 2500" by (simp only: f1 of_int_numeral)
    then have "Math_round (fl (h * 10000)) \<le> Math_round (real_of_int 2500)"
      by (rule Math_round_mono)
    then have "Math_round (fl (h * 10000)) \<le> 2500" by (simp only: Math_round_of_int)
    then have "real_of_int (Math_round (fl (h * 10000))) \<le> 2500" by linarith
    then have "real_of_int (Math_round (fl (h * 10000))) / 10000 \<le> 1 / 4" by linarith
    then have "fl (real_of_int (Math_round (fl (h * 10000))) / 10000) \<le> fl (1 / 4)"
      by (rule mono)
    then show ?thesis by (simp only: hi f2)
  qed
  have down: "1 / 4 \<le> hi" if "1 / 4 < h"
  proof -
    from that have "2500 \<le> h * 10000" by simp
    then have "fl 2500 \<le> fl (h * 10000)" by (rule mono)
    then have "real_of_int 2500 \<le> fl (h * 10000)" by (simp only: f1 of_int_numeral)
    then have "Math_round (real_of_int 2500) \<le> Math_round (fl (h * 10000))"
      by (rule Math_round_mono)
    then have "2500 \<le> Math_round (fl (h * 10000))" by (simp only: Math_round_of_int)
    then have "2500 \<le> real_of_int (Math_round (fl (h * 10000)))" by linarith
    then have "1 / 4 \<le> real_of_int (Math_round (fl (h * 10000))) / 10000" by linarith
    then have "fl (1 / 4) \<le> fl (real_of_int (Math_round (fl (h * 10000))) / 10000)"
      by (rule mono)
    then show ?thesis by (simp only: hi f2)
  qed
  have q: "(0.25::real) = 1 / 4" by simp
  show ?thesis
  proof (intro conjI impI)
    assume "0.25 < hi"
    then have "\<not> hi \<le> 1 / 4" unfolding q by linarith
    with up have "\<not> h \<le> 1 / 4" by blast
    then show flag unfolding flag q by linarith
  next
    assume flag
    then have "1 / 4 < h" unfolding flag q .
    then show "0.25 \<le> hi" unfolding q by (rule down)
  qed
qed

lemma flag_index_double:
  assumes "ps \<noteq> [] \<longrightarrow>
             herfindahlIndex c =
               toDouble (real_of_int (Math_round (toDouble (hhiOf_fl toDouble ps * 10000))) / 10000)
             \<and> isHighlyConcentrated c = (hhiOf_fl toDouble ps > 0.25)"
    and "ps = [] \<longrightarrow> herfindahlIndex c = 0 \<and> \<not> isHighlyConcentrated c"
  shows "(herfindahlIndex c > 0.25 \<longrightarrow> isHighlyConcentrated c)
       \<and> (isHighlyConcentrated c \<longrightarrow> herfindahlIndex c \<ge> 0.25)"
proof (cases "ps = []")
  case True
  with assms(2) show ?thesis by simp
next
  case False
  with assms(1) have
    "herfindahlIndex c =
       toDouble (real_of_int (Math_round (toDouble (hhiOf_fl toDouble ps * 10000))) / 10000)"
    "isHighlyConcentrated c = (hhiOf_fl toDouble ps > 0.25)"
    by blast+
  with toDouble_mono toDouble_threshold show ?thesis by (rule flag_index_relation_fl)
qed

lemma flag_index_double_analytics:
  "\<exists>c. computeConcentrationRisk_fl toDouble ps = Inr c
       \<and> (herfindahlIndex c > 0.25 \<longrightarrow> isHighlyConcentrated c)
       \<and> (isHighlyConcentrated c \<longrightarrow> herfindahlIndex c \<ge> 0.25)"
  using computeConcentrationRisk_fl_index [of toDouble ps] flag_index_double [of ps] by blast

lemma flag_index_double_summary:
  "\<exists>c. computeConcentration_fl toDouble ps = Inr c
       \<and> (herfindahlIndex c > 0.25 \<longrightarrow> isHighlyConcentrated c)
       \<and> (isHighlyConcentrated c \<longrightarrow> herfindahlIndex c \<ge> 0.25)"
  using computeConcentration_fl_index [of toDouble ps] flag_index_double [of ps] by blast

lemma flag_index_exact_analytics:
  "\<exists>c. computeConcentrationRisk ps = Inr c
       \<and> (herfindahlIndex c > 0.25 \<longrightarrow> isHighlyConcentrated c)
       \<and> (isHighlyConcentrated c \<longrightarrow> herfindahlIndex c \<ge> 0.25)"
proof -
  obtain c where c: "computeConcentrationRisk ps = Inr c"
      "herfindahlIndex c = real_of_int (Math_round (hhiOf ps * 10000)) / 10000"
      "isHighlyConcentrated c = (hhiOf ps > 0.25)"
    using computeConcentrationRisk_index [of ps] by blast
  have "(herfindahlIndex c > 0.25 \<longrightarrow> isHighlyConcentrated c)
      \<and> (isHighlyConcentrated c \<longrightarrow> herfindahlIndex c \<ge> 0.25)"
    using c(2,3) by (rule flag_index_relation)
  with c(1) show ?thesis by blast
qed

lemma flag_index_exact_summary:
  "\<exists>c. computeConcentration ps = Inr c
       \<and> (herfindahlIndex c > 0.25 \<longrightarrow> isHighlyConcentrated c)
       \<and> (isHighlyConcentrated c \<longrightarrow> herfindahlIndex c \<ge> 0.25)"
proof -
  obtain c where c: "computeConcentration ps = Inr c"
      "herfindahlIndex c = real_of_int (Math_round (hhiOf ps * 10000)) / 10000"
      "isHighlyConcentrated c = (hhiOf ps > 0.25)"
    using computeConcentration_index [of ps] by blast
  have "(herfindahlIndex c > 0.25 \<longrightarrow> isHighlyConcentrated c)
      \<and> (isHighlyConcentrated c \<longrightarrow> herfindahlIndex c \<ge> 0.25)"
    using c(2,3) by (rule flag_index_relation)
  with c(1) show ?thesis by blast
qed

subsection \<open>The two services on doubles\<close>

lemma fiveHoldings_analytics:
  "computeConcentrationRisk_fl toDouble fiveHoldings =
     Inr \<lparr>topHoldingSymbol = ''D'', topHoldingName = ''D'',
          topHoldingWeight = toDouble 0.4,
          herfindahlIndex = 0.25, isHighlyConcentrated = True\<rparr>"
  by (simp add: fiveHoldings_def fl_defs common_defs double_values)

lemma fiveHoldings_summary:
  "computeConcentration_fl toDouble (sortDescending allocationOf fiveHoldings) =
     Inr \<lparr>topHoldingSymbol = ''D'', topHoldingName = ''D'', topHoldingWeight = 40,
          herfindahlIndex = 0.25, isHighlyConcentrated = False\<rparr>"
  by (simp add: fiveHoldings_def fl_defs common_defs double_values)

lemma fourHoldings_analytics_score:
  "score_fl toDouble fourHoldings (computeAssetAllocation_fl toDouble fourHoldings) = 41"
  by (simp add: fourHoldings_def fl_defs common_defs double_values)

lemma fourHoldings_summary_score:
  "Ai_score_fl toDouble (sortDescending allocationOf fourHoldings)
     (Ai_computeAssetAllocation_fl toDouble (sortDescending allocationOf fourHoldings)) = 40"
  by (simp add: fourHoldings_def fl_defs common_defs double_values)

lemma fourHoldings_concentration:
  "computeConcentrationRisk_fl toDouble fourHoldings =
     Inr \<lparr>topHoldingSymbol = ''A'', topHoldingName = ''A'',
          topHoldingWeight = toDouble 0.592,
          herfindahlIndex = toDouble 0.4507, isHighlyConcentrated = True\<rparr>"
  by (simp add: fourHoldings_def fl_defs common_defs double_values)

section \<open>The claims\<close>

subsection \<open>Consistency of the two endpoints\<close>

text \<open>
  C1 fails on the code. The two endpoints do not share a computation: \<open>AiService\<close>
  holds a second copy of the metric code, \<open>getSummary\<close> sorts the array of holdings in
  place before it sums the squares, and its class HHI squares \<open>weight / 100\<close>. In exact
  arithmetic the copies agree (\<open>endpoints_agree_in_exact_arithmetic\<close>); in the doubles
  of the code they do not. For five holdings of 0.15, 0.15, 0.15, 0.40 and 0.15 the
  analytics endpoint sums the squares in the given order and sets
  \<open>isHighlyConcentrated\<close>, the summary endpoint sums them in sorted order and does not,
  both returning the index 0.25. For holdings of 0.592, 0.0752, 0.3064 and 0.0264 in
  four asset classes the analytics endpoint returns the diversification score 41, the
  summary endpoint 40.
\<close>

theorem endpoints_differ_in_double_arithmetic:
  "computeConcentrationRisk_fl toDouble fiveHoldings =
     Inr \<lparr>topHoldingSymbol = ''D'', topHoldingName = ''D'',
          topHoldingWeight = toDouble 0.4,
          herfindahlIndex = 0.25, isHighlyConcentrated = True\<rparr>
   \<and> computeConcentration_fl toDouble (sortDescending allocationOf fiveHoldings) =
       Inr \<lparr>topHoldingSymbol = ''D'', topHoldingName = ''D'', topHoldingWeight = 40,
            herfindahlIndex = 0.25, isHighlyConcentrated = False\<rparr>
   \<and> score_fl toDouble fourHoldings (computeAssetAllocation_fl toDouble fourHoldings) = 41
   \<and> Ai_score_fl toDouble (sortDescending allocationOf fourHoldings)
         (Ai_computeAssetAllocation_fl toDouble (sortDescending allocationOf fourHoldings))
       = 40"
  by (simp only: fiveHoldings_analytics fiveHoldings_summary fourHoldings_analytics_score
        fourHoldings_summary_score simp_thms)

subsection \<open>The empty portfolio\<close>

text \<open>
  C2, as the code has it. For the empty list \<open>getAnalytics\<close> returns the neutral
  concentration value, an empty allocation list and two insights: the "low"
  diversification message and the fixed-income message, no concentration message.
  The diversification score is 30, not 0: with no allocation entry the asset-class
  HHI is 0 and the evenness term contributes its full 30 points.
\<close>

theorem empty_portfolio:
  "getAnalytics now [] =
     Inr \<lparr>PortfolioAnalyticsResponse.assetAllocation = [],
          concentrationRisk =
            \<lparr>topHoldingSymbol = '''', topHoldingName = '''', topHoldingWeight = 0,
             herfindahlIndex = 0, isHighlyConcentrated = False\<rparr>,
          diversification =
            \<lparr>score = 30, assetClassCount = 0, holdingsCount = 0,
             topAssetClass = ''UNKNOWN'', topAssetClassWeight = 0\<rparr>,
          insights =
            [''Low diversification (score: 30/100). Portfolio is heavily weighted in UNKNOWN (0.0%).'',
             ''No significant fixed income allocation detected.''],
          computedAt = now\<rparr>"
  by (simp add: analytics_defs common_defs)

text \<open>C2 as stated fails: the score of the empty portfolio is not 0.\<close>

theorem empty_portfolio_score_not_zero:
  "score (computeDiversification [] (computeAssetAllocation [])) \<noteq> 0"
  by (simp add: analytics_defs common_defs)

subsection \<open>Range of the diversification score\<close>

text \<open>
  C3, at an input where the code leaves the range. Two EQUITY holdings of 0.6 each
  (fractions in [0,1] that sum to 1.2): the class weight is 1.2, the asset-class HHI
  1.44, the evenness term \<open>(1 - 1.44) * 30 = -13.2\<close> is not clamped at 0, and both
  services return the score -3. The score never exceeds 100 (\<open>score_upper_bound\<close>),
  and it is not negative when the fractions are non-negative and sum to at most 1
  (\<open>score_range_when_fractions_sum_to_at_most_one\<close>).
\<close>

theorem overweight_score_negative:
  "list_all (\<lambda>p. 0 \<le> allocationOf p \<and> allocationOf p \<le> 1) twoOverweightEquities
   \<and> evennessScore (computeAssetAllocation twoOverweightEquities) = - 13.2
   \<and> score (computeDiversification twoOverweightEquities
               (computeAssetAllocation twoOverweightEquities)) = - 3
   \<and> score (Ai_computeDiversification twoOverweightEquities
               (Ai_computeAssetAllocation twoOverweightEquities)) = - 3"
  by (simp add: analytics_defs ai_defs common_defs twoOverweightEquities_def)

subsection \<open>The concentration flag\<close>

text \<open>
  C4, as the code has it. Both services set \<open>isHighlyConcentrated\<close> from the running
  sum of squared weights before it is rounded to 4 decimals, and return the rounded
  index. The flag and the returned index are related one direction each way: an index
  above 0.25 implies the flag, and the flag implies an index of at least 0.25; they
  can differ only when the returned index is exactly 0.25. This holds for both
  services, in exact arithmetic and in the doubles of the code.
\<close>

theorem flag_and_returned_index:
  "(\<exists>c. computeConcentrationRisk ps = Inr c
        \<and> (herfindahlIndex c > 0.25 \<longrightarrow> isHighlyConcentrated c)
        \<and> (isHighlyConcentrated c \<longrightarrow> herfindahlIndex c \<ge> 0.25))
   \<and> (\<exists>c. computeConcentration ps = Inr c
        \<and> (herfindahlIndex c > 0.25 \<longrightarrow> isHighlyConcentrated c)
        \<and> (isHighlyConcentrated c \<longrightarrow> herfindahlIndex c \<ge> 0.25))
   \<and> (\<exists>c. computeConcentrationRisk_fl toDouble ps = Inr c
        \<and> (herfindahlIndex c > 0.25 \<longrightarrow> isHighlyConcentrated c)
        \<and> (isHighlyConcentrated c \<longrightarrow> herfindahlIndex c \<ge> 0.25))
   \<and> (\<exists>c. computeConcentration_fl toDouble ps = Inr c
        \<and> (herfindahlIndex c > 0.25 \<longrightarrow> isHighlyConcentrated c)
        \<and> (isHighlyConcentrated c \<longrightarrow> herfindahlIndex c \<ge> 0.25))"
  by (intro conjI flag_index_exact_analytics flag_index_exact_summary
        flag_index_double_analytics flag_index_double_summary)

text \<open>
  A witness: with holdings of 0.6, 0.3 and 0.1 the index is 0.46 and the flag is set;
  with the doubles nearest to 0.592, 0.0752, 0.3064 and 0.0264 the index is the double
  nearest to 0.4507 and the flag is set.
\<close>

theorem flag_and_returned_index_witness:
  "(\<exists>c. computeConcentrationRisk threeClasses = Inr c
        \<and> herfindahlIndex c > 0.25 \<and> isHighlyConcentrated c \<and> herfindahlIndex c \<ge> 0.25)
   \<and> (\<exists>c. computeConcentrationRisk_fl toDouble fourHoldings = Inr c
        \<and> herfindahlIndex c > 0.25 \<and> isHighlyConcentrated c \<and> herfindahlIndex c \<ge> 0.25)"
proof -
  have "computeConcentrationRisk threeClasses =
          Inr \<lparr>topHoldingSymbol = ''A'', topHoldingName = ''A'', topHoldingWeight = 0.6,
               herfindahlIndex = 0.46, isHighlyConcentrated = True\<rparr>"
    by (simp add: analytics_defs common_defs threeClasses_def)
  moreover have "computeConcentrationRisk_fl toDouble fourHoldings =
          Inr \<lparr>topHoldingSymbol = ''A'', topHoldingName = ''A'',
               topHoldingWeight = toDouble 0.592,
               herfindahlIndex = 4059544704111765 / 9007199254740992,
               isHighlyConcentrated = True\<rparr>"
    by (simp add: fourHoldings_concentration double_values)
  ultimately show ?thesis
    using flag_and_returned_index [of threeClasses] flag_and_returned_index [of fourHoldings]
    by simp
qed

text \<open>
  C4 as stated fails. Holdings of 0.5 and 0.005: the exact index 0.250025 exceeds
  0.25, so the flag is set, but the index returned is 0.25, which does not.
\<close>

theorem flag_differs_from_rounded_index:
  "computeConcentrationRisk borderlineConcentration =
     Inr \<lparr>topHoldingSymbol = ''A'', topHoldingName = ''A'', topHoldingWeight = 0.5,
          herfindahlIndex = 0.25, isHighlyConcentrated = True\<rparr>
   \<and> isHighlyConcentrated (projr (computeConcentrationRisk borderlineConcentration))
       \<noteq> (herfindahlIndex (projr (computeConcentrationRisk borderlineConcentration)) > 0.25)"
  by (simp add: analytics_defs common_defs borderlineConcentration_def)

subsection \<open>Range of the Herfindahl index\<close>

text \<open>
  C5 fails on the code. The index is the sum of the squared fractions, which the code
  neither normalises nor clamps. Two holdings with allocation 1 each, both in [0, 1]:
  the sum of squares is 2 and the index returned is 2, above the range (0-1) that
  the interface of the code documents for \<open>herfindahlIndex\<close>.
\<close>

theorem herfindahlIndex_above_one:
  "list_all (\<lambda>p. 0 \<le> allocationOf p \<and> allocationOf p \<le> 1) twoFullWeights
   \<and> computeConcentrationRisk twoFullWeights =
       Inr \<lparr>topHoldingSymbol = ''A'', topHoldingName = ''A'', topHoldingWeight = 1,
            herfindahlIndex = 2, isHighlyConcentrated = True\<rparr>
   \<and> \<not> herfindahlIndex (projr (computeConcentrationRisk twoFullWeights)) \<le> 1"
  by (simp add: analytics_defs common_defs twoFullWeights_def)

subsection \<open>A single full-weight holding\<close>

text \<open>
  C6. The single holding AAPL, allocation 1.0, class EQUITY: the Herfindahl index is
  1 and the portfolio is highly concentrated; one holding counts, the holdings score
  is 2, the class score 6, the asset-class HHI 1, the evenness score 0 and the
  diversification score 8.
\<close>

theorem single_full_weight_holding:
  "computeConcentrationRisk singleFullWeight =
     Inr \<lparr>topHoldingSymbol = ''AAPL'', topHoldingName = ''AAPL'', topHoldingWeight = 1,
          herfindahlIndex = 1, isHighlyConcentrated = True\<rparr>
   \<and> holdingsScore singleFullWeight = 2
   \<and> classScore (computeAssetAllocation singleFullWeight) = 6
   \<and> classHhi (computeAssetAllocation singleFullWeight) = 1
   \<and> evennessScore (computeAssetAllocation singleFullWeight) = 0
   \<and> computeDiversification singleFullWeight (computeAssetAllocation singleFullWeight) =
       \<lparr>score = 8, assetClassCount = 1, holdingsCount = 1,
        topAssetClass = ''EQUITY'', topAssetClassWeight = 1\<rparr>"
  by (simp add: analytics_defs common_defs singleFullWeight_def)

subsection \<open>Conservation of the allocation\<close>



subsection \<open>Absent fields\<close>

text \<open>
  C9, as the code has it. Both endpoints return a response for every holdings list,
  and a holding with absent fields is treated exactly as the holding whose absent
  fields hold their defaults: 0 for the numbers, the empty string for the symbol, the
  symbol for the name, \<open>UNKNOWN\<close> for the asset class and sub class, and the user's
  currency for the currency.
\<close>

theorem total_with_defaults:
  "(\<exists>r. getAnalytics now ps = Inr r)
   \<and> (\<exists>r. getSummary now userCurrency ps = Inr r)
   \<and> getAnalytics now (map (withDefaults userCurrency) ps) = getAnalytics now ps
   \<and> getSummary now userCurrency (map (withDefaults userCurrency) ps)
       = getSummary now userCurrency ps"
  using getAnalytics_result [of ps now] getSummary_total [of now userCurrency ps]
  by (auto simp: getAnalytics_withDefaults getSummary_withDefaults)

text \<open>
  C9 as stated fails for the currency: a holding without a currency is listed with
  the user's currency, here USD, which is neither the empty string nor \<open>UNKNOWN\<close>.
\<close>

theorem absent_currency_is_user_currency:
  "PortfolioPosition.currency noFields = None
   \<and> map AiSummaryHolding.currency
         (holdings (projr (getSummary ''2026-01-01T00:00:00.000Z'' ''USD'' [noFields]))) = [''USD'']
   \<and> AiSummaryHolding.currency (summaryHolding ''USD'' noFields) \<noteq> ''''
   \<and> AiSummaryHolding.currency (summaryHolding ''USD'' noFields) \<noteq> ''UNKNOWN''"
  by (simp add: ai_defs common_defs noFields_def)

subsection \<open>Number of insights\<close>

text \<open>
  C10. \<open>generateInsights\<close> is the concatenation of what its four rules push: the
  diversification rule pushes exactly one message, the concentration, equity and
  fixed-income rules at most one each, so the list has between 1 and 4 messages.
  The same holds for the copy in \<open>AiService\<close>.
\<close>

theorem generateInsights_between_one_and_four:
  "generateInsights c d a =
     concentrationInsight c @ diversificationInsight d @ equityInsight a @ fixedIncomeInsight a
   \<and> length (concentrationInsight c) \<le> 1
   \<and> length (diversificationInsight d) = 1
   \<and> length (equityInsight a) \<le> 1
   \<and> length (fixedIncomeInsight a) \<le> 1
   \<and> 1 \<le> length (generateInsights c d a) \<and> length (generateInsights c d a) \<le> 4
   \<and> length (Ai_concentrationInsight c) \<le> 1
   \<and> length (Ai_diversificationInsight d) = 1
   \<and> length (Ai_equityInsight a) \<le> 1
   \<and> length (Ai_fixedIncomeInsight a) \<le> 1
   \<and> 1 \<le> length (Ai_generateInsights c d a) \<and> length (Ai_generateInsights c d a) \<le> 4"
proof -
  have "length (generateInsights c d a) =
          length (concentrationInsight c) + 1 + length (equityInsight a)
            + length (fixedIncomeInsight a)"
    by (simp add: generateInsights_def diversificationInsight_length)
  moreover have "length (Ai_generateInsights c d a) =
          length (Ai_concentrationInsight c) + 1 + length (Ai_equityInsight a)
            + length (Ai_fixedIncomeInsight a)"
    by (simp add: Ai_generateInsights_def Ai_diversificationInsight_length)
  moreover note concentrationInsight_length [of c] equityInsight_length [of a]
    fixedIncomeInsight_length [of a] Ai_concentrationInsight_length [of c]
    Ai_equityInsight_length [of a] Ai_fixedIncomeInsight_length [of a]
    diversificationInsight_length [of d] Ai_diversificationInsight_length [of d]
  ultimately show ?thesis by (simp add: generateInsights_def)
qed

end
